theory Spec2Isabelle
  imports Complex_Main "HOL-Library.List_Lexorder" "HOL-Library.Char_ord"
begin

section \<open>Python values\<close>

text \<open>
  Python floats are modelled as \<^typ>\<open>real\<close> (no NaN, no rounding).  Exceptions are values
  of the type \<open>error\<close>; \<open>SystemExit\<close> stands for the exceptions that derive from
  \<open>BaseException\<close> only, which an \<open>except Exception\<close> clause does not catch.
\<close>

datatype error = TypeError | ValueError | ZeroDivisionError | ValidationError | SystemExit

fun is_Exception :: "error \<Rightarrow> bool" where
  "is_Exception SystemExit = False"
| "is_Exception _ = True"

text \<open>
  One key of an input dictionary: absent, present with the value \<open>None\<close>, or present
  with a value of the type the schema \<open>TickerData\<close> gives the key.
\<close>

datatype 'a entry = Absent | PyNone | Val 'a

text \<open>\<open>d.get(key)\<close>: Python's \<open>None\<close> is \<^term>\<open>None\<close>.\<close>

fun dict_get :: "'a entry \<Rightarrow> 'a option" where
  "dict_get (Val x) = Some x"
| "dict_get PyNone = None"
| "dict_get Absent = None"

text \<open>\<open>d.get(key, default)\<close>: the default replaces an absent key, not a stored \<open>None\<close>.\<close>

fun dict_get_default :: "'a entry \<Rightarrow> 'a \<Rightarrow> 'a option" where
  "dict_get_default (Val x) dflt = Some x"
| "dict_get_default PyNone dflt = None"
| "dict_get_default Absent dflt = Some dflt"

text \<open>\<open>xs.index(x)\<close>; \<^term>\<open>None\<close> is the \<open>ValueError\<close> of a missing element.\<close>

fun index_of :: "'a list \<Rightarrow> 'a \<Rightarrow> nat option" where
  "index_of [] x = None"
| "index_of (y # ys) x = (if y = x then Some 0 else map_option Suc (index_of ys x))"

definition mean :: "real list \<Rightarrow> real" where
  "mean xs = sum_list xs / real (length xs)"

section \<open>utils/schemas.py: enumerations\<close>

datatype SignalType = PANIC | GREED

datatype BaseLevel = STRONG | GOOD | URGENT | NONE

datatype FinalLevel = RED | YELLOW | WHITE | IGNORE

section \<open>The input dictionary \<open>ticker_data\<close>\<close>

record ticker_data =
  ticker :: "string entry"
  price :: "real entry"
  rsi_7 :: "real entry"
  rsi_14 :: "real entry"
  rsi_21 :: "real entry"
  rsi :: "real entry"
  signal_type :: "string entry"
  volume_ratio :: "real entry"
  current_volume :: "real entry"
  average_volume :: "real entry"
  atr :: "real entry"
  current_atr :: "real entry"
  average_atr :: "real entry"
  historical_atrs :: "real list entry"
  sma_20 :: "real entry"
  spread_percent :: "real entry"
  historical_prices :: "real list entry"
  historical_volumes :: "real list entry"

text \<open>
  What lies outside the detector: the answer of the market calendar, \<^term>\<open>None\<close>
  when it raises (\<open>is_market_open_now\<close> of \<open>data/market_calendar.py\<close> computes with
  dates and times only, so what it raises is of class \<open>Exception\<close>); the clock; and
  what importing \<open>data.tinkoff_client\<close>, building its client and asking it for the
  daily candles of a ticker gives: the exception raised, or the candles (\<^term>\<open>None\<close>
  when the call returns nothing; a candle is its \<open>volume\<close> entry when it has one).
  The module \<open>data/tinkoff_client.py\<close> calls \<open>sys.exit(1)\<close> when its SDK or
  \<open>python-dotenv\<close> is missing, which raises \<open>SystemExit\<close>.
\<close>

record world =
  is_market_open_now :: "bool option"
  now :: int
  get_candles :: "string \<Rightarrow> error + real option list option"

section \<open>core/filters: the context filters\<close>

text \<open>
  A filter returns \<open>(passed, message)\<close>.  The messages are f-strings over the numbers
  involved; they are modelled as constructors that carry those numbers.
\<close>

datatype filter_message =
    NoTicker | NoCurrentVolume | NoAverageVolume | VolumeOk real | VolumeLow real real
  | NoCurrentATR | NoAverageATR | ATRTooSmall real | VolatilityOk real real
  | VolatilityLow real real
  | NoPrice | NoSMA | TrendNotRequired | UndefinedSignalType
  | BuyAboveSMA real real | BuyBelowSMA real real | SellBelowSMA real real
  | SellAboveSMA real real | FilterError error

subsection \<open>volume_filter.py\<close>

record VolumeFilter =
  min_volume_ratio :: real
  use_forecast :: bool
  volume_cache :: "string \<rightharpoonup> real"
  cache_expiry :: "string \<rightharpoonup> int"

text \<open>\<open>VolumeFilter.__init__\<close>: the configuration is a dictionary with optional keys.\<close>

definition VolumeFilter_init :: "real option \<Rightarrow> VolumeFilter" where
  "VolumeFilter_init cfg_min_volume_ratio =
     \<lparr> min_volume_ratio = (case cfg_min_volume_ratio of None \<Rightarrow> 1.5 | Some r \<Rightarrow> r),
       use_forecast = True, volume_cache = Map.empty, cache_expiry = Map.empty \<rparr>"

text \<open>
  \<open>_get_average_volume\<close>: the mean of \<open>historical_volumes\<close> when the input has
  them; else an unexpired cache entry; else the mean of the adapter's last 20 daily
  candles, stored in the cache for one hour (3600 seconds); else \<open>None\<close>.  The import
  of the adapter and its calls run inside \<open>try ... except ImportError ... except
  Exception\<close>: an exception of class \<open>Exception\<close> gives \<open>None\<close>, any other one
  leaves the method.  The filter object is returned as the call leaves it.
\<close>

definition fetch_average_volume ::
  "VolumeFilter \<Rightarrow> world \<Rightarrow> string \<Rightarrow> (error + real option) \<times> VolumeFilter" where
  "fetch_average_volume vf w tk =
     (case get_candles w tk of
        Inl e \<Rightarrow> if is_Exception e then (Inr None, vf) else (Inl e, vf)
      | Inr (Some (c # cs)) \<Rightarrow>
          (case List.map_filter id (c # cs) of
             [] \<Rightarrow> (Inr None, vf)
           | u # us \<Rightarrow>
               (Inr (Some (mean (u # us))),
                vf\<lparr> volume_cache := (volume_cache vf)(tk \<mapsto> mean (u # us)),
                    cache_expiry := (cache_expiry vf)(tk \<mapsto> now w + 3600) \<rparr>))
      | Inr _ \<Rightarrow> (Inr None, vf))"

definition get_average_volume ::
  "VolumeFilter \<Rightarrow> world \<Rightarrow> string \<Rightarrow> ticker_data \<Rightarrow> (error + real option) \<times> VolumeFilter" where
  "get_average_volume vf w tk d =
     (case dict_get (historical_volumes d) of
        Some (v # vs) \<Rightarrow> (Inr (Some (mean (v # vs))), vf)
      | _ \<Rightarrow>
        (case (volume_cache vf tk, cache_expiry vf tk) of
           (Some cached, Some expiry) \<Rightarrow>
             if now w < expiry then (Inr (Some cached), vf) else fetch_average_volume vf w tk
         | _ \<Rightarrow> fetch_average_volume vf w tk))"

text \<open>
  \<open>VolumeFilter.check\<close>.  The ratio is computed from \<open>current_volume\<close> and the
  average volume; the key \<open>volume_ratio\<close> of the input is not read.  Its
  \<open>except Exception\<close> does not catch what \<open>_get_average_volume\<close> lets through.
\<close>

definition VolumeFilter_check ::
  "VolumeFilter \<Rightarrow> world \<Rightarrow> ticker_data \<Rightarrow> (error + bool \<times> filter_message) \<times> VolumeFilter" where
  "VolumeFilter_check vf w d =
     (case dict_get (ticker d) of
        None \<Rightarrow> (Inr (False, NoTicker), vf)
      | Some tk \<Rightarrow>
          if tk = [] then (Inr (False, NoTicker), vf) else
          (case dict_get (current_volume d) of
             None \<Rightarrow> (Inr (False, NoCurrentVolume), vf)
           | Some cv \<Rightarrow>
               (case get_average_volume vf w tk d of
                  (Inl e, vf') \<Rightarrow> (Inl e, vf')
                | (Inr None, vf') \<Rightarrow> (Inr (False, NoAverageVolume), vf')
                | (Inr (Some avg), vf') \<Rightarrow>
                    if avg \<le> 0 then (Inr (False, NoAverageVolume), vf')
                    else if cv / avg \<ge> min_volume_ratio vf
                    then (Inr (True, VolumeOk (cv / avg)), vf')
                    else (Inr (False, VolumeLow (cv / avg) (min_volume_ratio vf)), vf'))))"

subsection \<open>volatility_filter.py\<close>

record VolatilityFilter =
  min_atr_ratio :: real
  min_absolute_atr :: real
  period :: nat

definition VolatilityFilter_init :: VolatilityFilter where
  "VolatilityFilter_init = \<lparr> min_atr_ratio = 0.8, min_absolute_atr = 0.5, period = 14 \<rparr>"

definition VolatilityFilter_check :: "VolatilityFilter \<Rightarrow> ticker_data \<Rightarrow> bool \<times> filter_message" where
  "VolatilityFilter_check f d =
     (case dict_get (current_atr d) of
        None \<Rightarrow> (False, NoCurrentATR)
      | Some cur \<Rightarrow>
          (case (case dict_get (average_atr d) of
                   Some a \<Rightarrow> Some a
                 | None \<Rightarrow>
                     (case dict_get (historical_atrs d) of
                        Some (h # hs) \<Rightarrow> Some (mean (h # hs))
                      | _ \<Rightarrow> None)) of
             None \<Rightarrow> (False, NoAverageATR)
           | Some avg \<Rightarrow>
               (case (case dict_get (price d) of
                        Some p \<Rightarrow>
                          if p > 0 \<and> cur / p * 100 < min_absolute_atr f
                          then Some (cur / p * 100) else None
                      | None \<Rightarrow> None) of
                  Some atr_percent \<Rightarrow> (False, ATRTooSmall atr_percent)
                | None \<Rightarrow>
                    (let atr_ratio = (if avg > 0 then cur / avg else 0) in
                     if atr_ratio \<ge> min_atr_ratio f then (True, VolatilityOk cur atr_ratio)
                     else (False, VolatilityLow cur atr_ratio)))))"

subsection \<open>trend_filter.py\<close>

record TrendFilter =
  ma_period :: nat
  trend_threshold :: real
  require_trend_alignment :: bool

definition TrendFilter_init :: TrendFilter where
  "TrendFilter_init = \<lparr> ma_period = 20, trend_threshold = 1.0, require_trend_alignment = True \<rparr>"

datatype TradeAction = BUY | SELL

text \<open>
  \<open>calculate_sma\<close>: the mean of the last \<open>period\<close> prices; \<open>None\<close> on an empty
  list, on fewer prices than the period, and when the division raises (period 0).
\<close>

definition calculate_sma :: "real list \<Rightarrow> nat \<Rightarrow> real option" where
  "calculate_sma prices n =
     (if prices = [] then None
      else if length prices < n then None
      else if n = 0 then None
      else Some (sum_list (drop (length prices - n) prices) / real n))"

text \<open>
  The key read is \<open>sma_<ma_period>\<close>; the input dictionary has the key \<open>sma_20\<close>
  only, so another period finds no entry.
\<close>

definition sma_entry :: "TrendFilter \<Rightarrow> ticker_data \<Rightarrow> real option" where
  "sma_entry f d = (if ma_period f = 20 then dict_get (sma_20 d) else None)"

text \<open>
  \<open>TrendFilter.check\<close>.  The comparison with a missing moving average raises
  \<open>TypeError\<close> and the deviation in the message divides by the moving average; both
  exceptions are caught by the filter and make it fail.
\<close>

definition TrendFilter_check :: "TrendFilter \<Rightarrow> ticker_data \<Rightarrow> bool \<times> filter_message" where
  "TrendFilter_check f d =
     (case dict_get (price d) of
        None \<Rightarrow> (False, NoPrice)
      | Some p \<Rightarrow>
          (case (case sma_entry f d of
                   Some s \<Rightarrow> Inr (Some s)
                 | None \<Rightarrow>
                     (case dict_get (historical_prices d) of
                        Some (h # hs) \<Rightarrow>
                          if length (h # hs) \<ge> ma_period f
                          then Inr (calculate_sma (h # hs) (ma_period f)) else Inl NoSMA
                      | _ \<Rightarrow> Inl NoSMA)) of
             Inl m \<Rightarrow> (False, m)
           | Inr sma \<Rightarrow>
               if \<not> require_trend_alignment f then (True, TrendNotRequired)
               else
                 (case (if dict_get (signal_type d) = Some ''panic'' then Some BUY
                        else if dict_get (signal_type d) = Some ''greed'' then Some SELL
                        else (case (case rsi d of Absent \<Rightarrow> dict_get (rsi_14 d)
                                    | e \<Rightarrow> dict_get e) of
                                Some r \<Rightarrow> Some (if r < 30 then BUY else SELL)
                              | None \<Rightarrow> None)) of
                    None \<Rightarrow> (False, UndefinedSignalType)
                  | Some action \<Rightarrow>
                      (case sma of
                         None \<Rightarrow> (False, FilterError TypeError)
                       | Some s \<Rightarrow>
                           if s = 0 then (False, FilterError ZeroDivisionError)
                           else if action = BUY then
                             (if p > s then (True, BuyAboveSMA p s) else (False, BuyBelowSMA p s))
                           else
                             (if p < s then (True, SellBelowSMA p s)
                              else (False, SellAboveSMA p s))))))"

section \<open>core/risk_metrics.py\<close>

datatype RiskLevel = VERY_LOW | LOW | MODERATE | HIGH | VERY_HIGH | EXTREME

record RiskMetrics =
  risk_score :: real
  risk_level :: RiskLevel
  rsi_component :: real
  volume_component :: real
  volatility_component :: real

record RiskCalculator =
  atr_normal :: real

definition get_risk_level :: "real \<Rightarrow> RiskLevel" where
  "get_risk_level score =
     (if score \<le> 10 then VERY_LOW
      else if score \<le> 25 then LOW
      else if score \<le> 50 then MODERATE
      else if score \<le> 75 then HIGH
      else if score \<le> 90 then VERY_HIGH
      else EXTREME)"

text \<open>The value \<open>calculate_risk\<close> returns from its \<open>except\<close> clause.\<close>

definition risk_on_error :: RiskMetrics where
  "risk_on_error = \<lparr> risk_score = 10, risk_level = VERY_LOW, rsi_component = 10,
     volume_component = 10, volatility_component = 10 \<rparr>"

text \<open>
  \<open>RiskCalculator.calculate_risk\<close>.  Arithmetic on \<open>None\<close> raises \<open>TypeError\<close>
  and \<open>atr / atr_normal\<close> raises \<open>ZeroDivisionError\<close> when \<open>atr_normal\<close> is 0; the
  function catches every exception and returns \<^const>\<open>risk_on_error\<close>.
\<close>

definition calculate_risk ::
  "RiskCalculator \<Rightarrow> real option \<Rightarrow> real option \<Rightarrow> real option \<Rightarrow> RiskMetrics" where
  "calculate_risk rc rsi_v vol_ratio atr_v =
     (case (rsi_v, vol_ratio, atr_v) of
        (Some r, Some v, Some a) \<Rightarrow>
          if a > 0 \<and> atr_normal rc = 0 then risk_on_error
          else
            (let dev = \<bar>r - 50\<bar> / 50;
                 rsi_c = (if dev > 1 then 1 + (dev - 1) * 0.5 else dev);
                 vol_c = min (if v \<le> 0 then 0 else log 2 (v + 1)) 2 / 2;
                 atr_c = min (if a \<le> 0 then 0 else a / atr_normal rc) 3 / 3;
                 score = (if rsi_c = 0 then 0 else rsi_c * vol_c * atr_c) * 100
             in \<lparr> risk_score = score, risk_level = get_risk_level score,
                  rsi_component = rsi_c * 100, volume_component = vol_c * 100,
                  volatility_component = atr_c * 100 \<rparr>)
      | _ \<Rightarrow> risk_on_error)"

section \<open>utils/schemas.py: \<open>VolumeCluster\<close> and \<open>PanicSignal\<close>\<close>

text \<open>A cluster as the analyzer of \<open>core/cluster_analyzer.py\<close> returns it.\<close>

record AnalyzerCluster =
  price_level :: real
  volume_percentage :: real
  total_volume :: real
  significance :: real

text \<open>
  The schema's cluster.  The detector passes \<open>price_level\<close> and
  \<open>volume_percentage\<close>; \<open>volume_percentage\<close> must lie in \<open>[0, 100]\<close>.
\<close>

record VolumeCluster =
  c_price_level :: real
  c_volume_percentage :: real

definition VolumeCluster_new :: "AnalyzerCluster \<Rightarrow> error + VolumeCluster" where
  "VolumeCluster_new c =
     (if 0 \<le> volume_percentage c \<and> volume_percentage c \<le> 100
      then Inr \<lparr> c_price_level = price_level c, c_volume_percentage = volume_percentage c \<rparr>
      else Inl ValidationError)"

text \<open>
  \<open>PanicSignal\<close>.  The text fields (\<open>interpretation\<close>, \<open>recommendation\<close>,
  \<open>risk_level\<close>, \<open>cluster_summary\<close>, \<open>risk_interpretation\<close>) are strings built by
  case analysis that no control flow reads; they are left out.
\<close>

record PanicSignal =
  s_ticker :: string
  s_timestamp :: int
  s_signal_type :: SignalType
  s_rsi_7 :: "real option"
  s_rsi_14 :: real
  s_rsi_21 :: "real option"
  s_volume_ratio :: real
  s_current_volume :: "real option"
  s_average_volume :: "real option"
  s_base_level :: BaseLevel
  s_final_level :: FinalLevel
  s_passed_filters :: "(string \<times> filter_message) list"
  s_failed_filters :: "(string \<times> filter_message) list"
  s_price :: "real option"
  s_atr :: "real option"
  s_sma_20 :: "real option"
  s_spread_percent :: real
  s_volume_clusters :: "VolumeCluster list"
  s_risk_metric :: "real option"

text \<open>The keyword arguments of the constructor call, as Python values.\<close>

record PanicSignal_kwargs =
  k_ticker :: "string option"
  k_timestamp :: int
  k_signal_type :: "SignalType option"
  k_rsi_7 :: "real option"
  k_rsi_14 :: "real option"
  k_rsi_21 :: "real option"
  k_volume_ratio :: "real option"
  k_current_volume :: "real option"
  k_average_volume :: "real option"
  k_base_level :: BaseLevel
  k_final_level :: FinalLevel
  k_passed_filters :: "(string \<times> filter_message) list"
  k_failed_filters :: "(string \<times> filter_message) list"
  k_price :: "real option"
  k_atr :: "real option"
  k_sma_20 :: "real option"
  k_spread_percent :: "real option"
  k_volume_clusters :: "VolumeCluster list"
  k_risk_metric :: "real option"

text \<open>An \<open>Optional\<close> field accepts \<open>None\<close> and otherwise checks its constraint.\<close>

fun optional :: "('a \<Rightarrow> bool) \<Rightarrow> 'a option \<Rightarrow> bool" where
  "optional P None = True"
| "optional P (Some x) = P x"

text \<open>A required field rejects \<open>None\<close>.\<close>

fun required :: "('a \<Rightarrow> bool) \<Rightarrow> 'a option \<Rightarrow> bool" where
  "required P None = False"
| "required P (Some x) = P x"

text \<open>The field constraints (\<open>ge\<close>, \<open>le\<close>, \<open>gt\<close>) of the schema.\<close>

definition PanicSignal_valid :: "PanicSignal_kwargs \<Rightarrow> bool" where
  "PanicSignal_valid k =
     (required (\<lambda>t. True) (k_ticker k)
      \<and> required (\<lambda>t. True) (k_signal_type k)
      \<and> optional (\<lambda>x. 0 \<le> x \<and> x \<le> 100) (k_rsi_7 k)
      \<and> required (\<lambda>x. 0 \<le> x \<and> x \<le> 100) (k_rsi_14 k)
      \<and> optional (\<lambda>x. 0 \<le> x \<and> x \<le> 100) (k_rsi_21 k)
      \<and> required (\<lambda>x. 0 < x) (k_volume_ratio k)
      \<and> optional (\<lambda>x. 0 < x) (k_current_volume k)
      \<and> optional (\<lambda>x. 0 < x) (k_average_volume k)
      \<and> optional (\<lambda>x. 0 < x) (k_price k)
      \<and> optional (\<lambda>x. 0 < x) (k_atr k)
      \<and> required (\<lambda>x. 0 \<le> x) (k_spread_percent k)
      \<and> optional (\<lambda>x. 0 \<le> x \<and> x \<le> 100) (k_risk_metric k))"

definition PanicSignal_new :: "PanicSignal_kwargs \<Rightarrow> error + PanicSignal" where
  "PanicSignal_new k =
     (case (k_ticker k, k_signal_type k, k_rsi_14 k, k_volume_ratio k, k_spread_percent k) of
        (Some t, Some st, Some r14, Some vr, Some sp) \<Rightarrow>
          if PanicSignal_valid k then
            Inr \<lparr> s_ticker = t, s_timestamp = k_timestamp k, s_signal_type = st,
                  s_rsi_7 = k_rsi_7 k, s_rsi_14 = r14, s_rsi_21 = k_rsi_21 k,
                  s_volume_ratio = vr, s_current_volume = k_current_volume k,
                  s_average_volume = k_average_volume k, s_base_level = k_base_level k,
                  s_final_level = k_final_level k, s_passed_filters = k_passed_filters k,
                  s_failed_filters = k_failed_filters k, s_price = k_price k, s_atr = k_atr k,
                  s_sma_20 = k_sma_20 k, s_spread_percent = sp,
                  s_volume_clusters = k_volume_clusters k, s_risk_metric = k_risk_metric k \<rparr>
          else Inl ValidationError
      | _ \<Rightarrow> Inl ValidationError)"

section \<open>core/panic_detector.py\<close>

record threshold_row =
  rsi_buy :: real
  rsi_sell :: real
  volume_min :: real

record thresholds =
  red :: threshold_row
  yellow :: threshold_row
  white :: threshold_row

definition DEFAULT_THRESHOLDS :: thresholds where
  "DEFAULT_THRESHOLDS =
     \<lparr> red = \<lparr> rsi_buy = 25, rsi_sell = 75, volume_min = 2.0 \<rparr>,
       yellow = \<lparr> rsi_buy = 30, rsi_sell = 70, volume_min = 1.5 \<rparr>,
       white = \<lparr> rsi_buy = 35, rsi_sell = 65, volume_min = 1.2 \<rparr> \<rparr>"

text \<open>The objects stored in the dictionary \<open>self.filters\<close>.\<close>

datatype filter_obj = FVolume VolumeFilter | FVolatility VolatilityFilter | FTrend TrendFilter

text \<open>
  \<open>filter_obj.check(ticker_data)\<close>: the answer or the exception that leaves the
  call; the volume filter may write its cache, so the object is returned as the call
  leaves it.
\<close>

fun filter_check ::
  "filter_obj \<Rightarrow> world \<Rightarrow> ticker_data \<Rightarrow> (error + bool \<times> filter_message) \<times> filter_obj" where
  "filter_check (FVolume f) w d =
     (case VolumeFilter_check f w d of (r, f') \<Rightarrow> (r, FVolume f'))"
| "filter_check (FVolatility f) w d = (Inr (VolatilityFilter_check f d), FVolatility f)"
| "filter_check (FTrend f) w d = (Inr (TrendFilter_check f d), FTrend f)"

text \<open>
  The detector.  The cluster analyzer is held as the function its \<open>analyze\<close> method
  computes; it and the risk calculator are \<open>None\<close> when their module failed to load.
\<close>

record PanicDetector =
  thresholds :: thresholds
  filters :: "string \<rightharpoonup> filter_obj"
  cluster_analyzer :: "(real list \<Rightarrow> real list \<Rightarrow> AnalyzerCluster list) option"
  risk_calculator :: "RiskCalculator option"

text \<open>\<open>PanicDetector.__init__\<close>, given the thresholds \<open>_load_thresholds\<close> returned.\<close>

definition PanicDetector_init ::
  "thresholds \<Rightarrow> (real list \<Rightarrow> real list \<Rightarrow> AnalyzerCluster list) option \<Rightarrow> PanicDetector" where
  "PanicDetector_init th analyzer =
     \<lparr> thresholds = th,
       filters = [''volume'' \<mapsto> FVolume (VolumeFilter_init (Some (volume_min (white th)))),
                  ''volatility'' \<mapsto> FVolatility VolatilityFilter_init,
                  ''trend'' \<mapsto> FTrend TrendFilter_init],
       cluster_analyzer = analyzer,
       risk_calculator = (case analyzer of None \<Rightarrow> None | Some a \<Rightarrow> Some \<lparr> atr_normal = 2.0 \<rparr>) \<rparr>"

text \<open>
  Step 1, inside \<open>try ... except Exception\<close>: an exception of the calendar counts as
  an open market.
\<close>

definition check_market_time :: "world \<Rightarrow> bool" where
  "check_market_time w = (case is_market_open_now w of None \<Rightarrow> True | Some is_open \<Rightarrow> is_open)"

text \<open>Step 2: the four required keys are present and not \<open>None\<close>.\<close>

definition validate_data :: "ticker_data \<Rightarrow> bool" where
  "validate_data d =
     (dict_get (ticker d) \<noteq> None \<and> dict_get (rsi_14 d) \<noteq> None
      \<and> dict_get (volume_ratio d) \<noteq> None \<and> dict_get (price d) \<noteq> None)"

definition get_signal_type_from_rsi :: "PanicDetector \<Rightarrow> real \<Rightarrow> SignalType option" where
  "get_signal_type_from_rsi det r =
     (if r \<le> rsi_buy (white (thresholds det)) then Some PANIC
      else if r \<ge> rsi_sell (white (thresholds det)) then Some GREED
      else None)"

datatype basic_message =
    MarketClosed | InsufficientData | NoRSI14 | RSINormal real
  | VolumeInsufficient real real | BasicOk SignalType real real

text \<open>
  Steps 1 to 4.  Comparing a \<open>None\<close> volume ratio raises \<open>TypeError\<close> (step 2 has
  excluded it by then).
\<close>

definition check_basic_conditions ::
  "PanicDetector \<Rightarrow> world \<Rightarrow> ticker_data
     \<Rightarrow> error + (bool \<times> SignalType option \<times> basic_message)" where
  "check_basic_conditions det w d =
     (if \<not> check_market_time w then Inr (False, None, MarketClosed)
      else if \<not> validate_data d then Inr (False, None, InsufficientData)
      else
        (case dict_get (rsi_14 d) of
           None \<Rightarrow> Inr (False, None, NoRSI14)
         | Some r \<Rightarrow>
             (case get_signal_type_from_rsi det r of
                None \<Rightarrow> Inr (False, None, RSINormal r)
              | Some st \<Rightarrow>
                  (case dict_get_default (volume_ratio d) 0 of
                     None \<Rightarrow> Inl TypeError
                   | Some v \<Rightarrow>
                       if v < volume_min (white (thresholds det))
                       then Inr (False, None,
                                 VolumeInsufficient v (volume_min (white (thresholds det))))
                       else Inr (True, Some st, BasicOk st r v)))))"

text \<open>
  Step 5.  \<open>is_outside\<close> compares its argument with a threshold; on \<open>None\<close> the
  comparison raises \<open>TypeError\<close>.  A signal type other than \<open>PANIC\<close> takes the
  \<open>else\<close> branch.
\<close>

definition is_outside :: "PanicDetector \<Rightarrow> SignalType option \<Rightarrow> real option \<Rightarrow> error + bool" where
  "is_outside det st rsi_value =
     (case rsi_value of
        None \<Rightarrow> Inl TypeError
      | Some x \<Rightarrow>
          Inr (if st = Some PANIC then x < rsi_buy (white (thresholds det))
               else x > rsi_sell (white (thresholds det))))"

definition get_base_level ::
  "PanicDetector \<Rightarrow> real option \<Rightarrow> real option \<Rightarrow> real option \<Rightarrow> SignalType option
     \<Rightarrow> error + BaseLevel" where
  "get_base_level det r7 r14 r21 st =
     (case is_outside det st r7 of
        Inl e \<Rightarrow> Inl e
      | Inr outside_7 \<Rightarrow>
          (case is_outside det st r14 of
             Inl e \<Rightarrow> Inl e
           | Inr outside_14 \<Rightarrow>
               (case is_outside det st r21 of
                  Inl e \<Rightarrow> Inl e
                | Inr outside_21 \<Rightarrow>
                    Inr (if outside_7 \<and> outside_14 \<and> outside_21 then STRONG
                         else if (outside_7 \<and> outside_14) \<or> (outside_14 \<and> outside_21) then GOOD
                         else if outside_14 then URGENT
                         else NONE))))"

text \<open>Step 6.\<close>

definition adjust_level_by_volume :: "BaseLevel \<Rightarrow> real \<Rightarrow> BaseLevel" where
  "adjust_level_by_volume base_level vol_ratio =
     (if vol_ratio < 2.0 then base_level
      else
        (case index_of [URGENT, GOOD, STRONG] base_level of
           None \<Rightarrow> base_level
         | Some i \<Rightarrow>
             if i < length [URGENT, GOOD, STRONG] - 1 then [URGENT, GOOD, STRONG] ! (i + 1)
             else base_level))"

definition convert_to_final_level :: "BaseLevel \<Rightarrow> FinalLevel" where
  "convert_to_final_level b =
     (case b of STRONG \<Rightarrow> RED | GOOD \<Rightarrow> YELLOW | URGENT \<Rightarrow> WHITE | NONE \<Rightarrow> IGNORE)"

text \<open>Step 7: what one failed filter does to the current level.\<close>

definition downgrade :: "BaseLevel \<Rightarrow> BaseLevel" where
  "downgrade current_level =
     (case index_of [STRONG, GOOD, URGENT, NONE] current_level of
        None \<Rightarrow> current_level
      | Some i \<Rightarrow>
          if i < length [STRONG, GOOD, URGENT, NONE] - 1
          then [STRONG, GOOD, URGENT, NONE] ! (i + 1)
          else current_level)"

text \<open>
  The loop of \<open>apply_context_filters\<close> over the filter names; a name with no filter
  object is skipped, and an exception that leaves a filter leaves the loop.
\<close>

fun run_filters ::
  "world \<Rightarrow> ticker_data \<Rightarrow> string list \<Rightarrow> (string \<rightharpoonup> filter_obj) \<Rightarrow> BaseLevel
     \<Rightarrow> (string \<times> filter_message) list \<Rightarrow> (string \<times> filter_message) list
     \<Rightarrow> (error + BaseLevel \<times> (string \<times> filter_message) list \<times> (string \<times> filter_message) list)
         \<times> (string \<rightharpoonup> filter_obj)" where
  "run_filters w d [] fs current_level passed failed = (Inr (current_level, passed, failed), fs)"
| "run_filters w d (filter_name # rest) fs current_level passed failed =
     (case fs filter_name of
        None \<Rightarrow> run_filters w d rest fs current_level passed failed
      | Some filter_o \<Rightarrow>
          (case filter_check filter_o w d of
             (Inl e, filter_o') \<Rightarrow> (Inl e, fs(filter_name \<mapsto> filter_o'))
           | (Inr (passed_filter, filter_msg), filter_o') \<Rightarrow>
               if passed_filter
               then run_filters w d rest (fs(filter_name \<mapsto> filter_o')) current_level
                      (passed @ [(filter_name, filter_msg)]) failed
               else run_filters w d rest (fs(filter_name \<mapsto> filter_o'))
                      (downgrade current_level) passed (failed @ [(filter_name, filter_msg)])))"

definition filter_order :: "string list" where
  "filter_order = [''volatility'', ''trend'', ''volume'']"

definition apply_context_filters ::
  "PanicDetector \<Rightarrow> world \<Rightarrow> ticker_data \<Rightarrow> BaseLevel
     \<Rightarrow> (error + FinalLevel \<times> (string \<times> filter_message) list \<times> (string \<times> filter_message) list)
         \<times> PanicDetector" where
  "apply_context_filters det w d base_level =
     (case run_filters w d filter_order (filters det) base_level [] [] of
        (Inl e, fs) \<Rightarrow> (Inl e, det\<lparr> filters := fs \<rparr>)
      | (Inr (current_level, passed, failed), fs) \<Rightarrow>
          (Inr (convert_to_final_level current_level, passed, failed), det\<lparr> filters := fs \<rparr>))"

text \<open>
  Step 9, \<open>_analyze_volume_clusters\<close>: no analysis without both histories or when
  their lengths differ; a cluster the schema rejects is dropped.  The method catches
  every exception.
\<close>

definition analyze_volume_clusters ::
  "(real list \<Rightarrow> real list \<Rightarrow> AnalyzerCluster list) \<Rightarrow> ticker_data \<Rightarrow> VolumeCluster list" where
  "analyze_volume_clusters analyzer d =
     (case (dict_get_default (historical_prices d) [], dict_get_default (historical_volumes d) []) of
        (Some (p # ps), Some (v # vs)) \<Rightarrow>
          if length (p # ps) \<noteq> length (v # vs) then []
          else List.map_filter
                 (\<lambda>c. case VolumeCluster_new c of Inl e \<Rightarrow> None | Inr vc \<Rightarrow> Some vc)
                 (analyzer (p # ps) (v # vs))
      | _ \<Rightarrow> [])"

text \<open>Step 10, \<open>_calculate_risk_metrics\<close>: the score of the risk calculator.\<close>

definition calculate_risk_metrics ::
  "RiskCalculator \<Rightarrow> ticker_data \<Rightarrow> real option \<Rightarrow> real option \<Rightarrow> real option" where
  "calculate_risk_metrics rc d r14 vol_ratio =
     Some (risk_score (calculate_risk rc r14 vol_ratio (dict_get_default (atr d) 2.0)))"

text \<open>
  The keyword arguments of the constructor call in \<open>analyze_ticker\<close>, from the input
  and the results of steps 3 to 10.
\<close>

definition signal_kwargs ::
  "PanicDetector \<Rightarrow> world \<Rightarrow> ticker_data \<Rightarrow> SignalType option \<Rightarrow> BaseLevel \<Rightarrow> real
     \<Rightarrow> FinalLevel \<Rightarrow> (string \<times> filter_message) list \<Rightarrow> (string \<times> filter_message) list
     \<Rightarrow> PanicSignal_kwargs" where
  "signal_kwargs det w d st base_level vol_ratio final_level passed_filters failed_filters =
     \<lparr> k_ticker = dict_get_default (ticker d) ''UNKNOWN'',
       k_timestamp = now w,
       k_signal_type = st,
       k_rsi_7 = dict_get (rsi_7 d),
       k_rsi_14 = dict_get (rsi_14 d),
       k_rsi_21 = dict_get (rsi_21 d),
       k_volume_ratio = Some vol_ratio,
       k_current_volume = dict_get (current_volume d),
       k_average_volume = dict_get (average_volume d),
       k_base_level = base_level,
       k_final_level = final_level,
       k_passed_filters = passed_filters,
       k_failed_filters = failed_filters,
       k_price = dict_get (price d),
       k_atr = dict_get (atr d),
       k_sma_20 = dict_get (sma_20 d),
       k_spread_percent = dict_get_default (spread_percent d) 0.1,
       k_volume_clusters =
         (case cluster_analyzer det of
            None \<Rightarrow> []
          | Some analyzer \<Rightarrow> analyze_volume_clusters analyzer d),
       k_risk_metric =
         (case risk_calculator det of
            None \<Rightarrow> None
          | Some rc \<Rightarrow> calculate_risk_metrics rc d (dict_get (rsi_14 d)) (Some vol_ratio)) \<rparr>"

text \<open>
  The messages that the detector, the filters and the store write to the console and
  to the log are left out: writing them is taken to succeed.
\<close>

text \<open>
  \<open>analyze_ticker\<close>: the result is an exception, \<open>None\<close> or a signal, together with
  the detector as the call leaves it.  Steps 1 to 7 run outside any \<open>try\<close>, so an
  exception of step 5 or step 7 leaves the method.  The local variable \<open>base_level\<close> is overwritten
  by step 6, so the signal carries the level after the volume correction.  The
  constructor of the signal runs inside \<open>try ... except Exception\<close>, which returns
  \<open>None\<close>.
\<close>

definition analyze_ticker ::
  "PanicDetector \<Rightarrow> world \<Rightarrow> ticker_data \<Rightarrow> (error + PanicSignal option) \<times> PanicDetector" where
  "analyze_ticker det w d =
     (case check_basic_conditions det w d of
        Inl e \<Rightarrow> (Inl e, det)
      | Inr (basic_ok, st, basic_msg) \<Rightarrow>
          if \<not> basic_ok then (Inr None, det)
          else
            (case get_base_level det (dict_get (rsi_7 d)) (dict_get (rsi_14 d))
                    (dict_get (rsi_21 d)) st of
               Inl e \<Rightarrow> (Inl e, det)
             | Inr base_level \<Rightarrow>
                 if base_level = NONE then (Inr None, det)
                 else
                   (case dict_get_default (volume_ratio d) 1.0 of
                      None \<Rightarrow> (Inl TypeError, det)
                    | Some vol_ratio \<Rightarrow>
                        (case apply_context_filters det w d
                                (adjust_level_by_volume base_level vol_ratio) of
                           (Inl e, det') \<Rightarrow> (Inl e, det')
                         | (Inr (final_level, passed_filters, failed_filters), det') \<Rightarrow>
                             if final_level = IGNORE then (Inr None, det')
                             else
                               (case PanicSignal_new
                                       (signal_kwargs det' w d st
                                          (adjust_level_by_volume base_level vol_ratio)
                                          vol_ratio final_level passed_filters failed_filters) of
                                  Inr signal \<Rightarrow> (Inr (Some signal), det')
                                | Inl e \<Rightarrow>
                                    if is_Exception e then (Inr None, det')
                                    else (Inl e, det'))))))"

text \<open>
  \<open>detect_panic\<close>: the signal, its dictionary form when \<open>return_dict\<close> is set, or
  \<open>None\<close>; the body runs inside \<open>try ... except Exception\<close>, which returns \<open>None\<close>
  for an exception of class \<open>Exception\<close> and lets any other one through.
\<close>

datatype detect_result = Signal PanicSignal | SignalDict PanicSignal

definition detect_panic ::
  "PanicDetector \<Rightarrow> world \<Rightarrow> ticker_data \<Rightarrow> bool
     \<Rightarrow> (error + detect_result option) \<times> PanicDetector" where
  "detect_panic det w d return_dict =
     (case analyze_ticker det w d of
        (Inr None, det') \<Rightarrow> (Inr None, det')
      | (Inr (Some signal), det') \<Rightarrow>
          (Inr (Some (if return_dict then SignalDict signal else Signal signal)), det')
      | (Inl e, det') \<Rightarrow> if is_Exception e then (Inr None, det') else (Inl e, det'))"

section \<open>core/indicators.py: RSI\<close>

text \<open>\<open>np.diff\<close>.\<close>

fun diff :: "real list \<Rightarrow> real list" where
  "diff (x # y # ys) = (y - x) # diff (y # ys)"
| "diff [x] = []"
| "diff [] = []"

definition gains_of :: "real list \<Rightarrow> real list" where
  "gains_of prices = map (\<lambda>delta. if delta > 0 then delta else 0) (diff prices)"

definition losses_of :: "real list \<Rightarrow> real list" where
  "losses_of prices = map (\<lambda>delta. if delta < 0 then - delta else 0) (diff prices)"

text \<open>The loop of Wilder's smoothing, from the previous average on.\<close>

fun smooth :: "nat \<Rightarrow> real \<Rightarrow> real list \<Rightarrow> real list" where
  "smooth p prev [] = []"
| "smooth p prev (x # xs) =
     (let a = (prev * (real p - 1) + x) / real p in a # smooth p a xs)"

text \<open>
  The entries \<open>avg[period - 1:]\<close> of the averaged array: the mean of the first
  \<open>period\<close> values, then the smoothed values.
\<close>

definition averages :: "nat \<Rightarrow> real list \<Rightarrow> real list" where
  "averages p xs = (let first = mean (take p xs) in first # smooth p first (drop p xs))"

text \<open>
  One RSI value: \<open>rs\<close> is the quotient where the average loss is not 0 and is set to
  100 where it is 0.
\<close>

definition rsi_of :: "real \<Rightarrow> real \<Rightarrow> real" where
  "rsi_of avg_gain avg_loss =
     (let rs = (if avg_loss \<noteq> 0 then avg_gain / avg_loss else 100) in 100 - 100 / (1 + rs))"

text \<open>
  \<open>safe_calculate_rsi\<close>, for a period of at least 1; \<^term>\<open>None\<close> is the NaN of the
  first \<open>period\<close> entries.
\<close>

definition safe_calculate_rsi :: "real list \<Rightarrow> nat \<Rightarrow> real option list" where
  "safe_calculate_rsi prices p =
     (if length prices < p + 1 then []
      else if length (gains_of prices) < p then []
      else replicate p None
           @ map Some (map2 rsi_of (averages p (gains_of prices)) (averages p (losses_of prices))))"

definition calculate_rsi :: "real list \<Rightarrow> nat \<Rightarrow> real option list" where
  "calculate_rsi prices p = safe_calculate_rsi prices p"

section \<open>data/database.py\<close>

text \<open>
  The texts of the column \<open>level\<close>: the three literals the queries compare with (an
  emoji and a Russian word in the source), and any other text.
\<close>

datatype level_text = STRONG_LEVEL | GOOD_LEVEL | URGENT_LEVEL | OtherLevel string

text \<open>A row of the table \<open>signals\<close>; a \<open>NOT NULL\<close> column has no option.\<close>

record signal_row =
  col_id :: nat
  col_ticker :: string
  col_timestamp :: string
  col_signal_type :: string
  col_level :: level_text
  col_rsi_14 :: "real option"
  col_volume_ratio :: "real option"
  col_price :: "real option"
  col_rsi_7 :: "real option"
  col_rsi_21 :: "real option"
  col_base_level :: "string option"
  col_final_level :: "string option"
  col_risk_metric :: "real option"
  col_volume_clusters :: "string list option"
  col_cluster_summary :: "string option"
  col_passed_filters :: "string list option"
  col_created_at :: string

text \<open>
  The database file: the table, the counter of \<open>AUTOINCREMENT\<close> (the largest id given
  so far), and whether a connection that a failed \<open>INSERT\<close> left open still holds the
  write lock of its unfinished transaction.
\<close>

record Database =
  signals :: "signal_row list"
  sqlite_sequence :: nat
  write_locked :: bool

text \<open>
  What the database code takes from the runtime at a call: the clock, as
  \<open>(datetime.now() - timedelta(days)).strftime(...)\<close> and as SQLite's
  \<open>CURRENT_TIMESTAMP\<close>, and whether the garbage collector has by then closed the
  connections that earlier calls left open.
\<close>

record runtime =
  strftime_days_ago :: "int \<Rightarrow> string"
  current_timestamp :: string
  connections_collected :: bool

text \<open>
  The dictionary \<open>save_signal\<close> reads (every key through \<open>.get\<close>, so an absent key
  and \<open>None\<close> are the same).  The two lists stand for what \<open>json.dumps\<close> serialises.
\<close>

record signal_dict =
  sd_ticker :: "string option"
  sd_detected_at :: "string option"
  sd_timestamp :: "string option"
  sd_signal_type :: "string option"
  sd_level :: "level_text option"
  sd_rsi_14 :: "real option"
  sd_volume_ratio :: "real option"
  sd_current_price :: "real option"
  sd_price :: "real option"
  sd_rsi_7 :: "real option"
  sd_rsi_21 :: "real option"
  sd_base_level :: "string option"
  sd_final_level :: "string option"
  sd_risk_metric :: "real option"
  sd_volume_clusters :: "string list option"
  sd_cluster_summary :: "string option"
  sd_passed_filters :: "string list option"

text \<open>Python's \<open>a or b\<close>: \<open>None\<close>, the empty text or list, and 0 are false.\<close>

fun or_list :: "'a list option \<Rightarrow> 'a list option \<Rightarrow> 'a list option" where
  "or_list (Some (c # cs)) b = Some (c # cs)"
| "or_list (Some []) b = b"
| "or_list None b = b"

fun or_real :: "real option \<Rightarrow> real option \<Rightarrow> real option" where
  "or_real (Some x) b = (if x \<noteq> 0 then Some x else b)"
| "or_real None b = b"

text \<open>
  \<open>save_signal\<close>: one \<open>INSERT\<close> with a fresh id, committed, and the connection
  closed.  An exception skips \<open>commit\<close> and \<open>close\<close> and gives \<open>False\<close>: while
  another connection holds the write lock the \<open>INSERT\<close> raises "database is locked",
  and a \<open>NULL\<close> in a \<open>NOT NULL\<close> column raises after the connection has taken the
  write lock, which its open transaction keeps until the connection is collected.
\<close>

definition save_signal :: "Database \<Rightarrow> runtime \<Rightarrow> signal_dict \<Rightarrow> bool \<times> Database" where
  "save_signal db rt sd =
     (if write_locked db \<and> \<not> connections_collected rt then (False, db)
      else
        (case (sd_ticker sd, or_list (sd_detected_at sd) (sd_timestamp sd), sd_signal_type sd,
               sd_level sd) of
           (Some tk, Some ts, Some sty, Some lv) \<Rightarrow>
             (True,
              db\<lparr> signals := signals db @
                    [\<lparr> col_id = Suc (sqlite_sequence db), col_ticker = tk, col_timestamp = ts,
                       col_signal_type = sty, col_level = lv, col_rsi_14 = sd_rsi_14 sd,
                       col_volume_ratio = sd_volume_ratio sd,
                       col_price = or_real (sd_current_price sd) (sd_price sd),
                       col_rsi_7 = sd_rsi_7 sd, col_rsi_21 = sd_rsi_21 sd,
                       col_base_level = sd_base_level sd, col_final_level = sd_final_level sd,
                       col_risk_metric = sd_risk_metric sd,
                       col_volume_clusters = or_list (sd_volume_clusters sd) None,
                       col_cluster_summary = sd_cluster_summary sd,
                       col_passed_filters = or_list (sd_passed_filters sd) None,
                       col_created_at = current_timestamp rt \<rparr>],
                  sqlite_sequence := Suc (sqlite_sequence db),
                  write_locked := False \<rparr>)
         | _ \<Rightarrow> (False, db\<lparr> write_locked := True \<rparr>)))"

datatype tension = CALM | MODERATE_TENSION | PANIC_TENSION

text \<open>
  The result of \<open>get_stats\<close>, without the most active and the most calm ticker (the
  queries leave ties between tickers to SQLite).  \<open>SUM\<close> over no rows is \<open>NULL\<close>.
\<close>

record stats =
  total_signals :: nat
  strong_signals :: "nat option"
  moderate_signals :: "nat option"
  urgent_signals :: "nat option"
  market_tension :: tension

definition rows_since :: "Database \<Rightarrow> string \<Rightarrow> signal_row list" where
  "rows_since db start_date = filter (\<lambda>r. col_timestamp r \<ge> start_date) (signals db)"

definition sum_level :: "level_text \<Rightarrow> signal_row list \<Rightarrow> nat option" where
  "sum_level lv rs = (if rs = [] then None else Some (length (filter (\<lambda>r. col_level r = lv) rs)))"

definition get_stats :: "Database \<Rightarrow> runtime \<Rightarrow> int \<Rightarrow> stats" where
  "get_stats db ck days =
     (let rs = rows_since db (strftime_days_ago ck days);
          total = length rs
      in \<lparr> total_signals = total,
           strong_signals = sum_level STRONG_LEVEL rs,
           moderate_signals = sum_level GOOD_LEVEL rs,
           urgent_signals = sum_level URGENT_LEVEL rs,
           market_tension =
             (if total = 0 then CALM
              else if total < 10 then MODERATE_TENSION
              else PANIC_TENSION) \<rparr>)"

section \<open>Reference notions and example inputs\<close>

text \<open>
  \<open>outside\<close> as the specification words it: below the white buy threshold for a
  panic, above the white sell threshold for greed.
\<close>

definition outside :: "PanicDetector \<Rightarrow> SignalType \<Rightarrow> real \<Rightarrow> bool" where
  "outside det st x =
     (case st of PANIC \<Rightarrow> x < rsi_buy (white (thresholds det))
      | GREED \<Rightarrow> x > rsi_sell (white (thresholds det)))"

text \<open>The height of a level on its ladder.\<close>

fun level_rank :: "BaseLevel \<Rightarrow> nat" where
  "level_rank NONE = 0"
| "level_rank URGENT = 1"
| "level_rank GOOD = 2"
| "level_rank STRONG = 3"

fun final_rank :: "FinalLevel \<Rightarrow> nat" where
  "final_rank IGNORE = 0"
| "final_rank WHITE = 1"
| "final_rank YELLOW = 2"
| "final_rank RED = 3"

text \<open>
  The empty dictionary, and a strong panic after \<open>tests/test_panic_detector.py\<close>
  (volumes in millions, the average volume given as the volume history).
\<close>

definition no_data :: ticker_data where
  "no_data = \<lparr> ticker = Absent, price = Absent, rsi_7 = Absent, rsi_14 = Absent, rsi_21 = Absent,
     rsi = Absent, signal_type = Absent, volume_ratio = Absent, current_volume = Absent,
     average_volume = Absent, atr = Absent, current_atr = Absent, average_atr = Absent,
     historical_atrs = Absent, sma_20 = Absent, spread_percent = Absent,
     historical_prices = Absent, historical_volumes = Absent \<rparr>"

definition strong_panic_data :: ticker_data where
  "strong_panic_data = no_data \<lparr> ticker := Val ''SBER'', rsi_7 := Val 22, rsi_14 := Val 24,
     rsi_21 := Val 26, volume_ratio := Val 2.3, current_volume := Val 450,
     historical_volumes := Val [195], price := Val 310, current_atr := Val 5,
     average_atr := Val 3, sma_20 := Val 305, spread_percent := Val 0.05 \<rparr>"

text \<open>The same input with the price below its moving average: the trend filter fails.\<close>

definition weak_trend_data :: ticker_data where
  "weak_trend_data = strong_panic_data \<lparr> sma_20 := Val 320 \<rparr>"

definition open_market :: world where
  "open_market = \<lparr> is_market_open_now = Some True, now = 0, get_candles = (\<lambda>tk. Inr None) \<rparr>"

definition default_detector :: PanicDetector where
  "default_detector = PanicDetector_init DEFAULT_THRESHOLDS None"

text \<open>
  Steps 1 to 7 of \<open>analyze_ticker\<close> as a function of their own: the signal type, the
  base level after step 6, the volume ratio and the result of the filters, when the
  analysis reaches the end of step 7.
\<close>

definition steps_1_to_7 ::
  "PanicDetector \<Rightarrow> world \<Rightarrow> ticker_data
     \<Rightarrow> ((SignalType option \<times> BaseLevel \<times> real \<times> FinalLevel
          \<times> (string \<times> filter_message) list \<times> (string \<times> filter_message) list)
         \<times> PanicDetector) option" where
  "steps_1_to_7 det w d =
     (case check_basic_conditions det w d of
        Inl e \<Rightarrow> None
      | Inr (basic_ok, st, basic_msg) \<Rightarrow>
          if \<not> basic_ok then None
          else
            (case get_base_level det (dict_get (rsi_7 d)) (dict_get (rsi_14 d))
                    (dict_get (rsi_21 d)) st of
               Inl e \<Rightarrow> None
             | Inr base_level \<Rightarrow>
                 if base_level = NONE then None
                 else
                   (case dict_get_default (volume_ratio d) 1.0 of
                      None \<Rightarrow> None
                    | Some vol_ratio \<Rightarrow>
                        (case apply_context_filters det w d
                                (adjust_level_by_volume base_level vol_ratio) of
                           (Inl e, det') \<Rightarrow> None
                         | (Inr (final_level, passed, failed), det') \<Rightarrow>
                             Some ((st, adjust_level_by_volume base_level vol_ratio, vol_ratio,
                                    final_level, passed, failed), det')))))"

text \<open>A strong panic of an instrument whose ATR is 0.\<close>

definition flat_atr_data :: ticker_data where
  "flat_atr_data = strong_panic_data \<lparr> atr := Val 0, current_atr := Val 0 \<rparr>"

text \<open>The strong panic without the key \<open>rsi_7\<close>.\<close>

definition no_rsi_7_data :: ticker_data where
  "no_rsi_7_data = strong_panic_data \<lparr> rsi_7 := Absent \<rparr>"

text \<open>An RSI(14) of 50 with a volume ratio of 3, and an RSI(14) on the buy threshold.\<close>

definition normal_rsi_data :: ticker_data where
  "normal_rsi_data = strong_panic_data \<lparr> rsi_14 := Val 50, volume_ratio := Val 3 \<rparr>"

definition boundary_rsi_data :: ticker_data where
  "boundary_rsi_data = strong_panic_data \<lparr> rsi_14 := Val 35 \<rparr>"

text \<open>An input of \<open>tests/test_core_conditions.py\<close>: the four required keys only.\<close>

definition basic_only_data :: ticker_data where
  "basic_only_data = no_data \<lparr> ticker := Val ''SBER'', rsi_14 := Val 30, volume_ratio := Val 3,
     price := Val 320 \<rparr>"

text \<open>
  Two runtimes at the same clock time, without and with a run of the garbage
  collector; the empty table; the dictionary of an urgent signal, and the same
  dictionary without its level.
\<close>

definition test_clock :: runtime where
  "test_clock = \<lparr> strftime_days_ago = (\<lambda>days. ''2024-01-08 14:30:00''),
     current_timestamp = ''2024-01-15 11:30:05'', connections_collected = False \<rparr>"

definition test_clock_collected :: runtime where
  "test_clock_collected = test_clock \<lparr> connections_collected := True \<rparr>"

definition empty_db :: Database where
  "empty_db = \<lparr> signals = [], sqlite_sequence = 0, write_locked = False \<rparr>"

definition urgent_signal_dict :: signal_dict where
  "urgent_signal_dict = \<lparr> sd_ticker = Some ''SBER'', sd_detected_at = None,
     sd_timestamp = Some ''2024-01-15 14:30:05'', sd_signal_type = Some ''PANIC'',
     sd_level = Some URGENT_LEVEL, sd_rsi_14 = Some 33, sd_volume_ratio = Some 1.6,
     sd_current_price = None, sd_price = Some 310, sd_rsi_7 = None, sd_rsi_21 = None,
     sd_base_level = None, sd_final_level = None, sd_risk_metric = Some 12,
     sd_volume_clusters = None, sd_cluster_summary = None, sd_passed_filters = None \<rparr>"

definition no_level_dict :: signal_dict where
  "no_level_dict = urgent_signal_dict \<lparr> sd_level := None \<rparr>"

text \<open>
  The adapter's SDK is missing; and the strong panic as the unit test gives it, with
  the average volume under its own key and no volume history.
\<close>

definition sdk_missing :: world where
  "sdk_missing = open_market \<lparr> get_candles := (\<lambda>tk. Inl SystemExit) \<rparr>"

definition no_history_data :: ticker_data where
  "no_history_data = strong_panic_data \<lparr> historical_volumes := Absent, average_volume := Val 195 \<rparr>"

section \<open>Step 5: the base level\<close>

text \<open>
  Claim C2, amended.  For every signal type and every triple of RSI values that are all
  present, \<open>get_base_level\<close> returns a level, and that level is strong iff all three
  values are outside the white threshold, good iff (outside7 and outside14) or (outside14
  and outside21) holds but not all three, urgent iff only rsi14 is outside, and none iff
  rsi14 is not outside.
\<close>

theorem get_base_level_present:
  "\<exists>lvl. get_base_level det (Some x7) (Some x14) (Some x21) (Some st) = Inr lvl
     \<and> (lvl = STRONG \<longleftrightarrow> outside det st x7 \<and> outside det st x14 \<and> outside det st x21)
     \<and> (lvl = GOOD \<longleftrightarrow>
          ((outside det st x7 \<and> outside det st x14) \<or> (outside det st x14 \<and> outside det st x21))
          \<and> \<not> (outside det st x7 \<and> outside det st x14 \<and> outside det st x21))
     \<and> (lvl = URGENT \<longleftrightarrow> outside det st x14 \<and> \<not> outside det st x7 \<and> \<not> outside det st x21)
     \<and> (lvl = NONE \<longleftrightarrow> \<not> outside det st x14)"
  by (cases st) (auto simp: get_base_level_def is_outside_def outside_def)

text \<open>The theorem at the input of the unit test "RSI21 confirms": good.\<close>

theorem get_base_level_present_witness:
  "get_base_level default_detector (Some 40) (Some 28) (Some 29) (Some PANIC) = Inr GOOD"
  using get_base_level_present [of default_detector 40 28 29 PANIC]
  by (auto simp: outside_def default_detector_def PanicDetector_init_def DEFAULT_THRESHOLDS_def)

text \<open>
  Claim C2 as stated fails for a missing value: with \<open>rsi_7\<close> missing and the other
  two values outside, the claim gives good, and the comparison of \<open>None\<close> with the
  threshold raises \<open>TypeError\<close>.
\<close>

theorem get_base_level_missing:
  "get_base_level default_detector None (Some 30) (Some 30) (Some PANIC) = Inl TypeError"
  by (simp add: get_base_level_def is_outside_def)

section \<open>Steps 6 and 7: promotion by volume, demotion by filters\<close>

lemma downgrade_simps [simp]:
  "downgrade STRONG = GOOD" "downgrade GOOD = URGENT" "downgrade URGENT = NONE"
  "downgrade NONE = NONE"
  by (simp_all add: downgrade_def)

text \<open>The loop downgrades once for each filter it adds to the failed list.\<close>

lemma run_filters_level:
  "run_filters w d ns fs lvl p f = (Inr (lvl', p', f'), fs')
   \<Longrightarrow> length f \<le> length f' \<and> lvl' = (downgrade ^^ (length f' - length f)) lvl"
proof (induction ns arbitrary: fs lvl p f)
  case Nil
  then show ?case by simp
next
  case (Cons n ns)
  show ?case
  proof (cases "fs n")
    case None
    with Cons show ?thesis by simp
  next
    case (Some fo)
    obtain r fo' where chk: "filter_check fo w d = (r, fo')"
      by (metis prod.exhaust)
    show ?thesis
    proof (cases r)
      case (Inl e)
      with Cons.prems Some chk show ?thesis by simp
    next
      case (Inr a)
      obtain ok msg where a: "a = (ok, msg)" by (cases a)
      show ?thesis
      proof (cases ok)
        case True
        with Cons.prems Some chk Inr a
        have "run_filters w d ns (fs(n \<mapsto> fo')) lvl (p @ [(n, msg)]) f
                = (Inr (lvl', p', f'), fs')"
          by simp
        from Cons.IH [OF this] show ?thesis .
      next
        case False
        with Cons.prems Some chk Inr a
        have "run_filters w d ns (fs(n \<mapsto> fo')) (downgrade lvl) p (f @ [(n, msg)])
                = (Inr (lvl', p', f'), fs')"
          by simp
        from Cons.IH [OF this]
        have le: "Suc (length f) \<le> length f'"
          and eq: "lvl' = (downgrade ^^ (length f' - Suc (length f))) (downgrade lvl)"
          by simp_all
        from le have "length f' - length f = Suc (length f' - Suc (length f))" by arith
        with le eq show ?thesis by (simp add: funpow_swap1)
      qed
    qed
  qed
qed

lemma rank_downgrade: "level_rank (downgrade l) \<le> level_rank l"
  by (cases l) simp_all

lemma rank_funpow_downgrade: "level_rank ((downgrade ^^ n) l) \<le> level_rank l"
  by (induction n) (auto intro: order_trans [OF rank_downgrade])

lemma final_rank_convert: "final_rank (convert_to_final_level l) = level_rank l"
  by (cases l) (simp_all add: convert_to_final_level_def)

lemma adjust_simps:
  "vr < 2 \<Longrightarrow> adjust_level_by_volume b vr = b"
  "2 \<le> vr \<Longrightarrow> adjust_level_by_volume URGENT vr = GOOD"
  "2 \<le> vr \<Longrightarrow> adjust_level_by_volume GOOD vr = STRONG"
  "2 \<le> vr \<Longrightarrow> adjust_level_by_volume STRONG vr = STRONG"
  "adjust_level_by_volume NONE vr = NONE"
  by (simp_all add: adjust_level_by_volume_def)

text \<open>The failed filters are listed in the order volatility, trend, volume.\<close>

lemma run_filters_names:
  "run_filters w d filter_order fs lvl [] [] = (Inr (lvl', p', f'), fs')
   \<Longrightarrow> map fst f' = filter (\<lambda>n. n \<in> set (map fst f')) filter_order"
  unfolding filter_order_def
  by (auto split: option.splits prod.splits if_splits sum.splits)

text \<open>
  The loop over the three filters of the detector, from their answers: one downgrade
  for each answer \<open>False\<close>, and each filter listed with its message as passed or as
  failed.
\<close>

lemma run_filters_answers:
  assumes "fs ''volatility'' = Some f1" "fs ''trend'' = Some f2" "fs ''volume'' = Some f3"
    and "filter_check f1 w d = (Inr (ok1, m1), f1')"
    and "filter_check f2 w d = (Inr (ok2, m2), f2')"
    and "filter_check f3 w d = (Inr (ok3, m3), f3')"
  shows "run_filters w d filter_order fs base [] [] =
     (Inr ((downgrade ^^ length (filter Not [ok1, ok2, ok3])) base,
           map (\<lambda>(n, ok, m). (n, m))
             (filter (\<lambda>(n, ok, m). ok)
                [(''volatility'', ok1, m1), (''trend'', ok2, m2), (''volume'', ok3, m3)]),
           map (\<lambda>(n, ok, m). (n, m))
             (filter (\<lambda>(n, ok, m). \<not> ok)
                [(''volatility'', ok1, m1), (''trend'', ok2, m2), (''volume'', ok3, m3)])),
      fs(''volatility'' \<mapsto> f1', ''trend'' \<mapsto> f2', ''volume'' \<mapsto> f3'))"
  using assms
  by (cases ok1; cases ok2; cases ok3) (simp_all add: filter_order_def funpow_swap1)


lemmas filter_eval_defs =
  apply_context_filters_def filter_order_def default_detector_def PanicDetector_init_def
  strong_panic_data_def no_data_def open_market_def weak_trend_data_def
  VolatilityFilter_check_def VolatilityFilter_init_def TrendFilter_check_def
  TrendFilter_init_def sma_entry_def VolumeFilter_check_def VolumeFilter_init_def
  get_average_volume_def mean_def DEFAULT_THRESHOLDS_def convert_to_final_level_def

lemma strong_panic_filters:
  "fst (apply_context_filters default_detector open_market strong_panic_data STRONG) =
     Inr (RED, [(''volatility'', VolatilityOk 5 (5/3)), (''trend'', BuyAboveSMA 310 305),
             (''volume'', VolumeOk (450/195))], [])"
  by (simp add: filter_eval_defs)


section \<open>The ten steps: when a signal is emitted\<close>

lemma steps_SomeD:
  assumes "steps_1_to_7 det w d = Some ((st, lvl, vr, final, p, f), det')"
  shows "\<exists>m base. check_basic_conditions det w d = Inr (True, st, m)
      \<and> get_base_level det (dict_get (rsi_7 d)) (dict_get (rsi_14 d)) (dict_get (rsi_21 d)) st
          = Inr base
      \<and> base \<noteq> NONE \<and> dict_get_default (volume_ratio d) 1.0 = Some vr
      \<and> lvl = adjust_level_by_volume base vr
      \<and> apply_context_filters det w d lvl = (Inr (final, p, f), det')"
proof -
  obtain ok st' m where cb: "check_basic_conditions det w d = Inr (ok, st', m)"
    using assms by (cases "check_basic_conditions det w d") (auto simp: steps_1_to_7_def)
  with assms have ok: "ok" by (cases ok) (simp_all add: steps_1_to_7_def)
  obtain base
    where gb: "get_base_level det (dict_get (rsi_7 d)) (dict_get (rsi_14 d)) (dict_get (rsi_21 d)) st'
                = Inr base"
    using assms cb ok
    by (cases "get_base_level det (dict_get (rsi_7 d)) (dict_get (rsi_14 d)) (dict_get (rsi_21 d)) st'")
       (auto simp: steps_1_to_7_def)
  with assms cb ok have nn: "base \<noteq> NONE" by (cases "base = NONE") (simp_all add: steps_1_to_7_def)
  obtain vr' where v: "dict_get_default (volume_ratio d) 1.0 = Some vr'"
    using assms cb ok gb nn
    by (cases "dict_get_default (volume_ratio d) 1.0") (auto simp: steps_1_to_7_def)
  obtain res det'' where acf0:
    "apply_context_filters det w d (adjust_level_by_volume base vr') = (res, det'')"
    by (metis prod.exhaust)
  obtain final' p' f' where res: "res = Inr (final', p', f')"
    using assms cb ok gb nn v acf0 by (cases res) (auto simp: steps_1_to_7_def)
  from acf0 res have acf:
    "apply_context_filters det w d (adjust_level_by_volume base vr') = (Inr (final', p', f'), det'')"
    by simp
  from assms cb ok gb nn v acf
  have eqs: "st' = st" "lvl = adjust_level_by_volume base vr'" "vr' = vr" "final' = final"
    "p' = p" "f' = f" "det'' = det'"
    by (auto simp: steps_1_to_7_def)
  from cb ok have cb': "check_basic_conditions det w d = Inr (True, st, m)"
    unfolding eqs by simp
  from gb have gb': "get_base_level det (dict_get (rsi_7 d)) (dict_get (rsi_14 d))
      (dict_get (rsi_21 d)) st = Inr base"
    unfolding eqs .
  from v have v': "dict_get_default (volume_ratio d) 1.0 = Some vr" unfolding eqs .
  from eqs have lvl': "lvl = adjust_level_by_volume base vr" by simp
  from acf have acf': "apply_context_filters det w d lvl = (Inr (final, p, f), det')"
    unfolding eqs .
  from cb' gb' nn v' lvl' acf' show ?thesis by blast
qed

lemma steps_Some:
  assumes "steps_1_to_7 det w d = Some ((st, lvl, vr, final, p, f), det')"
  shows "analyze_ticker det w d =
     (if final = IGNORE then (Inr None, det')
      else (case PanicSignal_new (signal_kwargs det' w d st lvl vr final p f) of
              Inr signal \<Rightarrow> (Inr (Some signal), det')
            | Inl e \<Rightarrow> if is_Exception e then (Inr None, det') else (Inl e, det')))"
proof -
  from steps_SomeD [OF assms] obtain m base
    where "check_basic_conditions det w d = Inr (True, st, m)"
      and "get_base_level det (dict_get (rsi_7 d)) (dict_get (rsi_14 d)) (dict_get (rsi_21 d)) st
          = Inr base"
      and "base \<noteq> NONE" and "dict_get_default (volume_ratio d) 1.0 = Some vr"
      and "lvl = adjust_level_by_volume base vr"
      and "apply_context_filters det w d lvl = (Inr (final, p, f), det')"
    by blast
  then show ?thesis by (simp add: analyze_ticker_def)
qed
lemma adjust_not_NONE: "b \<noteq> NONE \<Longrightarrow> adjust_level_by_volume b vr \<noteq> NONE"
  by (cases b) (auto simp: adjust_level_by_volume_def)

lemma steps_1_to_7_base:
  "steps_1_to_7 det w d = Some ((st, lvl, vr, final, p, f), det') \<Longrightarrow> lvl \<noteq> NONE"
  by (drule steps_SomeD) (auto simp: adjust_not_NONE)

lemma check_basic_conditions_error:
  "check_basic_conditions det w d = Inl e \<Longrightarrow> e = TypeError"
  by (auto simp: check_basic_conditions_def split: if_splits option.splits)

lemma get_base_level_error:
  "get_base_level det r7 r14 r21 st = Inl e \<Longrightarrow> e = TypeError"
  by (auto simp: get_base_level_def is_outside_def split: option.splits sum.splits)

lemma PanicSignal_new_error:
  "PanicSignal_new k = Inl e \<Longrightarrow> e = ValidationError"
  by (auto simp: PanicSignal_new_def split: option.splits if_splits)

text \<open>
  An exception leaves the volume filter only when the adapter raises one that is not of
  class \<open>Exception\<close> for the instrument of the input.
\<close>

lemma fetch_average_volume_error:
  "fetch_average_volume vf w tk = (Inl e, vf') \<Longrightarrow> \<not> is_Exception e \<and> get_candles w tk = Inl e"
  by (auto simp: fetch_average_volume_def split: sum.splits option.splits list.splits if_splits)

lemma get_average_volume_error:
  "get_average_volume vf w tk d = (Inl e, vf') \<Longrightarrow> \<not> is_Exception e \<and> get_candles w tk = Inl e"
  by (auto simp: get_average_volume_def dest: fetch_average_volume_error
      split: option.splits list.splits if_splits)

lemma VolumeFilter_check_error:
  assumes "VolumeFilter_check vf w d = (Inl e, vf')"
  shows "\<not> is_Exception e \<and> (\<exists>tk. dict_get (ticker d) = Some tk \<and> get_candles w tk = Inl e)"
proof (cases "dict_get (ticker d)")
  case None
  with assms show ?thesis by (simp add: VolumeFilter_check_def)
next
  case (Some tk)
  show ?thesis
  proof (cases "dict_get (current_volume d)")
    case None
    with assms Some show ?thesis by (simp add: VolumeFilter_check_def split: if_splits)
  next
    case cv: (Some cv)
    obtain r vf'' where g: "get_average_volume vf w tk d = (r, vf'')" by (metis prod.exhaust)
    show ?thesis
    proof (cases r)
      case (Inl e')
      with assms Some cv g have "e' = e"
        by (simp add: VolumeFilter_check_def split: if_splits)
      with g Inl get_average_volume_error [of vf w tk d e vf''] Some show ?thesis by simp
    next
      case (Inr a)
      with assms Some cv g show ?thesis
        by (cases a) (simp_all add: VolumeFilter_check_def split: if_splits)
    qed
  qed
qed

lemma filter_check_error:
  assumes "filter_check fo w d = (Inl e, fo')"
  shows "\<not> is_Exception e \<and> (\<exists>tk. dict_get (ticker d) = Some tk \<and> get_candles w tk = Inl e)"
proof (cases fo)
  case (FVolume vf)
  obtain r vf' where c: "VolumeFilter_check vf w d = (r, vf')" by (metis prod.exhaust)
  with assms FVolume have "r = Inl e" by simp
  with c VolumeFilter_check_error [of vf w d e vf'] show ?thesis by simp
next
  case (FVolatility f)
  with assms show ?thesis by simp
next
  case (FTrend f)
  with assms show ?thesis by simp
qed

lemma run_filters_error:
  "run_filters w d ns fs lvl p f = (Inl e, fs')
   \<Longrightarrow> \<not> is_Exception e \<and> (\<exists>tk. dict_get (ticker d) = Some tk \<and> get_candles w tk = Inl e)"
proof (induction ns arbitrary: fs lvl p f)
  case Nil
  then show ?case by simp
next
  case (Cons n ns)
  show ?case
  proof (cases "fs n")
    case None
    with Cons.prems have "run_filters w d ns fs lvl p f = (Inl e, fs')" by simp
    from Cons.IH [OF this] show ?thesis .
  next
    case (Some fo)
    obtain r fo' where chk: "filter_check fo w d = (r, fo')" by (metis prod.exhaust)
    show ?thesis
    proof (cases r)
      case (Inl e')
      with Cons.prems Some chk have "e' = e" by simp
      with chk Inl filter_check_error [of fo w d e fo'] show ?thesis by simp
    next
      case (Inr a)
      obtain ok msg where a: "a = (ok, msg)" by (cases a)
      show ?thesis
      proof (cases ok)
        case True
        with Cons.prems Some chk Inr a
        have "run_filters w d ns (fs(n \<mapsto> fo')) lvl (p @ [(n, msg)]) f = (Inl e, fs')"
          by simp
        from Cons.IH [OF this] show ?thesis .
      next
        case False
        with Cons.prems Some chk Inr a
        have "run_filters w d ns (fs(n \<mapsto> fo')) (downgrade lvl) p (f @ [(n, msg)]) = (Inl e, fs')"
          by simp
        from Cons.IH [OF this] show ?thesis .
      qed
    qed
  qed
qed

lemma apply_context_filters_error:
  assumes "apply_context_filters det w d base = (Inl e, det')"
  shows "\<not> is_Exception e \<and> (\<exists>tk. dict_get (ticker d) = Some tk \<and> get_candles w tk = Inl e)"
proof -
  obtain r fs where rf: "run_filters w d filter_order (filters det) base [] [] = (r, fs)"
    by (metis prod.exhaust)
  with assms have "r = Inl e"
    by (cases r) (auto simp: apply_context_filters_def)
  with rf run_filters_error [of w d filter_order "filters det" base "[]" "[]" e fs]
  show ?thesis by simp
qed

text \<open>
  The exceptions of \<open>analyze_ticker\<close>: a \<open>TypeError\<close> of steps 1 to 6, or what the
  adapter raised in step 7.
\<close>

lemma analyze_ticker_error:
  assumes "fst (analyze_ticker det w d) = Inl e"
  shows "e = TypeError
     \<or> (\<not> is_Exception e \<and> (\<exists>tk. dict_get (ticker d) = Some tk \<and> get_candles w tk = Inl e))"
proof (cases "check_basic_conditions det w d")
  case (Inl e')
  with assms check_basic_conditions_error [OF Inl] show ?thesis
    by (simp add: analyze_ticker_def)
next
  case (Inr r)
  obtain ok st m where r: "r = (ok, st, m)" by (cases r)
  show ?thesis
  proof (cases ok)
    case False
    with assms Inr r show ?thesis by (simp add: analyze_ticker_def)
  next
    case True
    show ?thesis
    proof (cases "get_base_level det (dict_get (rsi_7 d)) (dict_get (rsi_14 d)) (dict_get (rsi_21 d)) st")
      case (Inl e')
      with assms Inr r True get_base_level_error [OF Inl] show ?thesis
        by (simp add: analyze_ticker_def)
    next
      case base: (Inr base)
      show ?thesis
      proof (cases "base = NONE")
        case True
        with assms Inr r \<open>ok\<close> base show ?thesis by (simp add: analyze_ticker_def)
      next
        case False
        show ?thesis
        proof (cases "dict_get_default (volume_ratio d) 1.0")
          case None
          with assms Inr r \<open>ok\<close> base False show ?thesis by (simp add: analyze_ticker_def)
        next
          case (Some vr)
          obtain res det'
            where acf: "apply_context_filters det w d (adjust_level_by_volume base vr) = (res, det')"
            by (metis prod.exhaust)
          show ?thesis
          proof (cases res)
            case (Inl e')
            with assms Inr r \<open>ok\<close> base False Some acf have "e' = e"
              by (simp add: analyze_ticker_def)
            with acf Inl
              apply_context_filters_error [of det w d "adjust_level_by_volume base vr" e det']
            show ?thesis by simp
          next
            case res: (Inr x)
            obtain final p f where x: "x = (final, p, f)" by (cases x)
            from Inr r \<open>ok\<close> base False Some acf res x
            have "steps_1_to_7 det w d
                   = Some ((st, adjust_level_by_volume base vr, vr, final, p, f), det')"
              by (simp add: steps_1_to_7_def)
            from steps_Some [OF this] assms show ?thesis
              by (auto split: if_splits sum.splits dest: PanicSignal_new_error)
          qed
        qed
      qed
    qed
  qed
qed

lemma steps_None:
  assumes "steps_1_to_7 det w d = None"
  shows "fst (analyze_ticker det w d) \<noteq> Inr (Some s)"
proof (cases "check_basic_conditions det w d")
  case (Inl e')
  then show ?thesis by (simp add: analyze_ticker_def)
next
  case (Inr r)
  obtain ok st m where r: "r = (ok, st, m)" by (cases r)
  show ?thesis
  proof (cases ok)
    case False
    with Inr r show ?thesis by (simp add: analyze_ticker_def)
  next
    case True
    show ?thesis
    proof (cases "get_base_level det (dict_get (rsi_7 d)) (dict_get (rsi_14 d)) (dict_get (rsi_21 d)) st")
      case (Inl e')
      with Inr r True show ?thesis by (simp add: analyze_ticker_def)
    next
      case base: (Inr base)
      show ?thesis
      proof (cases "base = NONE")
        case True
        with Inr r \<open>ok\<close> base show ?thesis by (simp add: analyze_ticker_def)
      next
        case False
        show ?thesis
        proof (cases "dict_get_default (volume_ratio d) 1.0")
          case None
          with Inr r \<open>ok\<close> base False show ?thesis by (simp add: analyze_ticker_def)
        next
          case (Some vr)
          obtain res det'
            where acf: "apply_context_filters det w d (adjust_level_by_volume base vr) = (res, det')"
            by (metis prod.exhaust)
          show ?thesis
          proof (cases res)
            case (Inl e')
            with Inr r \<open>ok\<close> base False Some acf show ?thesis
              by (simp add: analyze_ticker_def)
          next
            case res: (Inr x)
            obtain final p f where x: "x = (final, p, f)" by (cases x)
            from Inr r \<open>ok\<close> base False Some acf res x assms show ?thesis
              by (simp add: steps_1_to_7_def)
          qed
        qed
      qed
    qed
  qed
qed

lemma PanicSignal_new_valid:
  "(\<exists>s. PanicSignal_new k = Inr s) \<longleftrightarrow> PanicSignal_valid k"
  by (cases "k_ticker k"; cases "k_signal_type k"; cases "k_rsi_14 k"; cases "k_volume_ratio k";
      cases "k_spread_percent k")
     (auto simp: PanicSignal_new_def PanicSignal_valid_def)

lemma PanicSignal_new_levels:
  "PanicSignal_new k = Inr s \<Longrightarrow> s_final_level s = k_final_level k \<and> s_base_level s = k_base_level k"
  by (auto simp: PanicSignal_new_def split: option.splits if_splits)

lemma signal_kwargs_levels [simp]:
  "k_final_level (signal_kwargs det w d st lvl vr final p f) = final"
  "k_base_level (signal_kwargs det w d st lvl vr final p f) = lvl"
  by (simp_all add: signal_kwargs_def)

lemma analyze_ticker_SomeD:
  assumes "fst (analyze_ticker det w d) = Inr (Some s)"
  shows "\<exists>st lvl vr final p f det'.
          steps_1_to_7 det w d = Some ((st, lvl, vr, final, p, f), det') \<and> final \<noteq> IGNORE
          \<and> PanicSignal_new (signal_kwargs det' w d st lvl vr final p f) = Inr s"
proof (cases "steps_1_to_7 det w d")
  case None
  from steps_None [OF None, of s] assms show ?thesis by simp
next
  case (Some x)
  obtain st lvl vr final p f det' where x: "x = ((st, lvl, vr, final, p, f), det')"
    by (metis prod.exhaust)
  from Some x have st: "steps_1_to_7 det w d = Some ((st, lvl, vr, final, p, f), det')" by simp
  from steps_Some [OF st] assms
  have "final \<noteq> IGNORE \<and> PanicSignal_new (signal_kwargs det' w d st lvl vr final p f) = Inr s"
    by (auto split: if_splits sum.splits)
  with st show ?thesis by blast
qed

text \<open>
  Claim C1, amended.  \<open>analyze_ticker\<close> emits a signal if and only if the analysis
  reaches the end of step 7 with a level that is not ignore and the schema of
  \<open>PanicSignal\<close> accepts the values of the fields; every emitted signal has a final
  level in red, yellow, white and a base level in strong, good, urgent; and when the
  level after the filters maps to ignore, the function returns no signal.
\<close>

theorem analyze_ticker_emits:
  "((\<exists>s. fst (analyze_ticker det w d) = Inr (Some s)) \<longleftrightarrow>
      (\<exists>st lvl vr final p f det'.
          steps_1_to_7 det w d = Some ((st, lvl, vr, final, p, f), det') \<and> final \<noteq> IGNORE
          \<and> PanicSignal_valid (signal_kwargs det' w d st lvl vr final p f)))
   \<and> (fst (analyze_ticker det w d) = Inr (Some s) \<longrightarrow>
        s_final_level s \<in> {RED, YELLOW, WHITE} \<and> s_base_level s \<in> {STRONG, GOOD, URGENT})
   \<and> (steps_1_to_7 det w d = Some ((st, lvl, vr, IGNORE, p, f), det') \<longrightarrow>
        fst (analyze_ticker det w d) = Inr None)"
proof (intro conjI iffI impI)
  assume "\<exists>s. fst (analyze_ticker det w d) = Inr (Some s)"
  then obtain s' where "fst (analyze_ticker det w d) = Inr (Some s')" ..
  from analyze_ticker_SomeD [OF this] PanicSignal_new_valid
  show "\<exists>st lvl vr final p f det'.
          steps_1_to_7 det w d = Some ((st, lvl, vr, final, p, f), det') \<and> final \<noteq> IGNORE
          \<and> PanicSignal_valid (signal_kwargs det' w d st lvl vr final p f)"
    by blast
next
  assume "\<exists>st lvl vr final p f det'.
          steps_1_to_7 det w d = Some ((st, lvl, vr, final, p, f), det') \<and> final \<noteq> IGNORE
          \<and> PanicSignal_valid (signal_kwargs det' w d st lvl vr final p f)"
  then obtain st lvl vr final p f det'
    where st: "steps_1_to_7 det w d = Some ((st, lvl, vr, final, p, f), det')"
      and fin: "final \<noteq> IGNORE"
      and v: "PanicSignal_valid (signal_kwargs det' w d st lvl vr final p f)"
    by blast
  from v PanicSignal_new_valid obtain s'
    where "PanicSignal_new (signal_kwargs det' w d st lvl vr final p f) = Inr s'"
    by blast
  with steps_Some [OF st] fin show "\<exists>s. fst (analyze_ticker det w d) = Inr (Some s)"
    by simp
next
  assume a: "fst (analyze_ticker det w d) = Inr (Some s)"
  from analyze_ticker_SomeD [OF a] obtain st lvl vr final p f det'
    where st: "steps_1_to_7 det w d = Some ((st, lvl, vr, final, p, f), det')"
      and fin: "final \<noteq> IGNORE"
      and new: "PanicSignal_new (signal_kwargs det' w d st lvl vr final p f) = Inr s"
    by blast
  from PanicSignal_new_levels [OF new]
  have lv: "s_final_level s = final" "s_base_level s = lvl" by simp_all
  from fin lv show "s_final_level s \<in> {RED, YELLOW, WHITE}" by (cases final) simp_all
  from steps_1_to_7_base [OF st] lv show "s_base_level s \<in> {STRONG, GOOD, URGENT}"
    by (cases lvl) simp_all
next
  assume "steps_1_to_7 det w d = Some ((st, lvl, vr, IGNORE, p, f), det')"
  from steps_Some [OF this] show "fst (analyze_ticker det w d) = Inr None" by simp
qed

text \<open>Evaluation of the detector on the example inputs.\<close>

lemmas detector_eval_defs =
  analyze_ticker_def steps_1_to_7_def check_basic_conditions_def check_market_time_def
  validate_data_def get_signal_type_from_rsi_def get_base_level_def is_outside_def
  adjust_level_by_volume_def flat_atr_data_def no_rsi_7_data_def
  PanicSignal_new_def PanicSignal_valid_def signal_kwargs_def filter_eval_defs

lemma strong_panic_steps:
  "map_option fst (steps_1_to_7 default_detector open_market strong_panic_data) =
     Some (Some PANIC, STRONG, 2.3, RED,
           [(''volatility'', VolatilityOk 5 (5/3)), (''trend'', BuyAboveSMA 310 305),
            (''volume'', VolumeOk (450/195))], [])"
  by (simp add: detector_eval_defs)

lemma flat_atr_steps:
  "map_option fst (steps_1_to_7 default_detector open_market flat_atr_data) =
     Some (Some PANIC, STRONG, 2.3, YELLOW,
           [(''trend'', BuyAboveSMA 310 305), (''volume'', VolumeOk (450/195))],
           [(''volatility'', ATRTooSmall 0)])"
  by (simp add: detector_eval_defs)

text \<open>
  Claim C1 as stated fails: for the strong panic with an ATR of 0 the level after the
  filters is yellow, not ignore, and no signal is emitted, because the schema requires
  \<open>atr > 0\<close> and the constructor's exception is turned into \<open>None\<close>.
\<close>

theorem flat_atr_no_signal:
  "map_option (\<lambda>r. fst (snd (snd (snd (fst r)))))
       (steps_1_to_7 default_detector open_market flat_atr_data) = Some YELLOW
   \<and> fst (analyze_ticker default_detector open_market flat_atr_data) = Inr None"
  by (simp add: detector_eval_defs)

text \<open>The theorem at the strong panic: red after the filters, a signal is emitted.\<close>

theorem analyze_ticker_emits_witness:
  "(\<exists>s. fst (analyze_ticker default_detector open_market strong_panic_data) = Inr (Some s))
   \<and> map_option (\<lambda>r. fst (snd (snd (snd (fst r)))))
       (steps_1_to_7 default_detector open_market strong_panic_data) = Some RED"
proof -
  obtain x det' where s: "steps_1_to_7 default_detector open_market strong_panic_data = Some (x, det')"
    using strong_panic_steps by (cases "steps_1_to_7 default_detector open_market strong_panic_data") auto
  with strong_panic_steps have x: "x = (Some PANIC, STRONG, 2.3, RED,
           [(''volatility'', VolatilityOk 5 (5/3)), (''trend'', BuyAboveSMA 310 305),
            (''volume'', VolumeOk (450/195))], [])" by simp
  have cfg: "cluster_analyzer det' = None" "risk_calculator det' = None"
    using s by (auto simp: detector_eval_defs)
  have v: "PanicSignal_valid (signal_kwargs det' open_market strong_panic_data (Some PANIC) STRONG 2.3 RED
       [(''volatility'', VolatilityOk 5 (5/3)), (''trend'', BuyAboveSMA 310 305),
            (''volume'', VolumeOk (450/195))] [])"
    using cfg by (simp add: PanicSignal_valid_def signal_kwargs_def strong_panic_data_def no_data_def)
  from s x have s': "steps_1_to_7 default_detector open_market strong_panic_data =
      Some ((Some PANIC, STRONG, 2.3, RED,
           [(''volatility'', VolatilityOk 5 (5/3)), (''trend'', BuyAboveSMA 310 305),
            (''volume'', VolumeOk (450/195))], []), det')" by simp
  have "\<exists>s. fst (analyze_ticker default_detector open_market strong_panic_data) = Inr (Some s)"
    unfolding analyze_ticker_emits [of default_detector open_market strong_panic_data, THEN conjunct1]
    using s' v by blast
  moreover have "map_option (\<lambda>r. fst (snd (snd (snd (fst r)))))
       (steps_1_to_7 default_detector open_market strong_panic_data) = Some RED"
    using s' by simp
  ultimately show ?thesis by (rule conjI)
qed

section \<open>The public boundary and the RSI gate\<close>

lemma detect_panic_None:
  "fst (analyze_ticker det w d) = Inr None \<Longrightarrow> fst (detect_panic det w d rd) = Inr None"
  by (cases "analyze_ticker det w d") (simp add: detect_panic_def)

lemma detect_panic_Some:
  "fst (analyze_ticker det w d) = Inr (Some s)
   \<Longrightarrow> fst (detect_panic det w d rd) = Inr (Some (if rd then SignalDict s else Signal s))"
  by (cases "analyze_ticker det w d") (simp add: detect_panic_def)

lemma detect_panic_caught:
  "fst (analyze_ticker det w d) = Inl e \<Longrightarrow> is_Exception e
   \<Longrightarrow> fst (detect_panic det w d rd) = Inr None"
  by (cases "analyze_ticker det w d") (simp add: detect_panic_def)

lemma detect_panic_uncaught:
  "fst (analyze_ticker det w d) = Inl e \<Longrightarrow> \<not> is_Exception e
   \<Longrightarrow> fst (detect_panic det w d rd) = Inl e"
  by (cases "analyze_ticker det w d") (simp add: detect_panic_def)

lemma detect_panic_errorD:
  assumes "fst (detect_panic det w d rd) = Inl e"
  shows "fst (analyze_ticker det w d) = Inl e \<and> \<not> is_Exception e"
proof (cases "fst (analyze_ticker det w d)")
  case (Inl e')
  show ?thesis
  proof (cases "is_Exception e'")
    case True
    from detect_panic_caught [OF Inl True, of rd] assms show ?thesis by simp
  next
    case False
    from detect_panic_uncaught [OF Inl False, of rd] assms Inl False show ?thesis by simp
  qed
next
  case (Inr r)
  with assms detect_panic_None [of det w d rd] detect_panic_Some [of det w d _ rd]
  show ?thesis by (cases r) auto
qed




lemma check_basic_conditions_normal:
  assumes "dict_get (rsi_14 d) = Some r" "rsi_buy (white (thresholds det)) < r"
    "r < rsi_sell (white (thresholds det))"
  shows "\<exists>m. check_basic_conditions det w d = Inr (False, None, m)"
  using assms by (simp add: check_basic_conditions_def get_signal_type_from_rsi_def)

text \<open>
  Claim C5.  For every input whose rsi14 lies strictly between the white thresholds
  (35 and 65 by default), \<open>check_basic_conditions\<close> fails and \<open>analyze_ticker\<close> and
  \<open>detect_panic\<close> return no signal, whatever the other fields, the market calendar and
  the filters are.
\<close>

theorem normal_rsi_no_signal:
  assumes "dict_get (rsi_14 d) = Some r" "rsi_buy (white (thresholds det)) < r"
    "r < rsi_sell (white (thresholds det))"
  shows "(\<exists>m. check_basic_conditions det w d = Inr (False, None, m))
     \<and> fst (analyze_ticker det w d) = Inr None
     \<and> fst (detect_panic det w d rd) = Inr None"
proof -
  from check_basic_conditions_normal [OF assms] obtain m
    where m: "check_basic_conditions det w d = Inr (False, None, m)" by blast
  then have a: "fst (analyze_ticker det w d) = Inr None" by (simp add: analyze_ticker_def)
  from m a detect_panic_None [OF a] show ?thesis by blast
qed

text \<open>The theorem at an RSI(14) of 50 with a volume ratio of 3.\<close>

theorem normal_rsi_no_signal_witness:
  "fst (analyze_ticker default_detector open_market normal_rsi_data) = Inr None
   \<and> fst (detect_panic default_detector open_market normal_rsi_data True) = Inr None"
  using normal_rsi_no_signal [of normal_rsi_data 50 default_detector open_market True]
  by (simp add: normal_rsi_data_def detector_eval_defs)

lemma check_basic_conditions_TrueD:
  "check_basic_conditions det w d = Inr (True, st, m)
   \<Longrightarrow> \<exists>r. dict_get (rsi_14 d) = Some r \<and> st = get_signal_type_from_rsi det r"
  by (auto simp: check_basic_conditions_def split: if_splits option.splits)

lemma get_base_level_not_outside:
  "is_outside det st (Some r) = Inr False \<Longrightarrow> get_base_level det r7 (Some r) r21 st = Inr lvl
   \<Longrightarrow> lvl = NONE"
  by (auto simp: get_base_level_def split: sum.splits if_splits)

text \<open>
  Before step 7 \<open>analyze_ticker\<close> raises nothing but \<open>TypeError\<close>: when step 5
  gives no level but none, the result is that exception or no signal.
\<close>

lemma analyze_ticker_no_level:
  assumes none: "\<forall>st m base. check_basic_conditions det w d = Inr (True, st, m)
      \<longrightarrow> get_base_level det (dict_get (rsi_7 d)) (dict_get (rsi_14 d)) (dict_get (rsi_21 d)) st
            = Inr base \<longrightarrow> base = NONE"
  shows "fst (analyze_ticker det w d) = Inl TypeError \<or> fst (analyze_ticker det w d) = Inr None"
proof (cases "check_basic_conditions det w d")
  case (Inl e')
  with check_basic_conditions_error [OF Inl] show ?thesis by (simp add: analyze_ticker_def)
next
  case (Inr r)
  obtain ok st m where r: "r = (ok, st, m)" by (cases r)
  show ?thesis
  proof (cases ok)
    case False
    with Inr r show ?thesis by (simp add: analyze_ticker_def)
  next
    case True
    show ?thesis
    proof (cases "get_base_level det (dict_get (rsi_7 d)) (dict_get (rsi_14 d)) (dict_get (rsi_21 d)) st")
      case (Inl e')
      with Inr r True get_base_level_error [OF Inl] show ?thesis
        by (simp add: analyze_ticker_def)
    next
      case base: (Inr base)
      from Inr r True have "check_basic_conditions det w d = Inr (True, st, m)" by simp
      with none base have "base = NONE" by blast
      with Inr r True base show ?thesis by (simp add: analyze_ticker_def)
    qed
  qed
qed

text \<open>
  Claim C9.  With the buy threshold below the sell threshold (35 and 65 by default), an
  rsi14 equal to the buy threshold is typed panic by step 3 and an rsi14 equal to the
  sell threshold is typed greed, but neither is outside for step 5, so the base level
  is none whenever step 5 returns one, and no signal is emitted.
\<close>

theorem boundary_rsi_no_signal:
  assumes lt: "rsi_buy (white (thresholds det)) < rsi_sell (white (thresholds det))"
    and r: "dict_get (rsi_14 d) = Some r"
    and b: "r = rsi_buy (white (thresholds det)) \<or> r = rsi_sell (white (thresholds det))"
  shows "get_signal_type_from_rsi det (rsi_buy (white (thresholds det))) = Some PANIC
     \<and> get_signal_type_from_rsi det (rsi_sell (white (thresholds det))) = Some GREED
     \<and> is_outside det (Some PANIC) (Some (rsi_buy (white (thresholds det)))) = Inr False
     \<and> is_outside det (Some GREED) (Some (rsi_sell (white (thresholds det)))) = Inr False
     \<and> (get_base_level det (dict_get (rsi_7 d)) (dict_get (rsi_14 d)) (dict_get (rsi_21 d))
           (get_signal_type_from_rsi det r) = Inr lvl \<longrightarrow> lvl = NONE)
     \<and> fst (analyze_ticker det w d) \<noteq> Inr (Some s)
     \<and> fst (detect_panic det w d rd) = Inr None"
proof -
  have t1: "get_signal_type_from_rsi det (rsi_buy (white (thresholds det))) = Some PANIC"
    by (simp add: get_signal_type_from_rsi_def)
  have t2: "get_signal_type_from_rsi det (rsi_sell (white (thresholds det))) = Some GREED"
    using lt by (simp add: get_signal_type_from_rsi_def)
  have o1: "is_outside det (Some PANIC) (Some (rsi_buy (white (thresholds det)))) = Inr False"
    by (simp add: is_outside_def)
  have o2: "is_outside det (Some GREED) (Some (rsi_sell (white (thresholds det)))) = Inr False"
    by (simp add: is_outside_def)
  have o: "is_outside det (get_signal_type_from_rsi det r) (Some r) = Inr False"
    using b t1 t2 o1 o2 by auto
  have base: "get_base_level det (dict_get (rsi_7 d)) (dict_get (rsi_14 d)) (dict_get (rsi_21 d))
           (get_signal_type_from_rsi det r) = Inr lvl \<longrightarrow> lvl = NONE" for lvl
    using get_base_level_not_outside [OF o] r by auto
  have none: "base' = NONE"
    if cb: "check_basic_conditions det w d = Inr (True, st, m)"
      and gb: "get_base_level det (dict_get (rsi_7 d)) (dict_get (rsi_14 d))
                   (dict_get (rsi_21 d)) st = Inr base'" for st m base'
  proof -
    from check_basic_conditions_TrueD [OF cb] r have "st = get_signal_type_from_rsi det r"
      by simp
    with gb base [of base'] show ?thesis by simp
  qed
  from none have "\<forall>st m base. check_basic_conditions det w d = Inr (True, st, m)
      \<longrightarrow> get_base_level det (dict_get (rsi_7 d)) (dict_get (rsi_14 d)) (dict_get (rsi_21 d)) st
            = Inr base \<longrightarrow> base = NONE"
    by blast
  from analyze_ticker_no_level [OF this]
  have res: "fst (analyze_ticker det w d) = Inl TypeError \<or> fst (analyze_ticker det w d) = Inr None"
    by blast
  have a: "fst (analyze_ticker det w d) \<noteq> Inr (Some s)" for s
    using res by auto
  have dp: "fst (detect_panic det w d rd) = Inr None"
    using res by (auto dest: detect_panic_None detect_panic_caught [where rd = rd])
  from t1 t2 o1 o2 base a dp show ?thesis by blast
qed

text \<open>The theorem at the strong panic with an RSI(14) of exactly 35.\<close>

theorem boundary_rsi_no_signal_witness:
  "fst (analyze_ticker default_detector open_market boundary_rsi_data) = Inr None
   \<and> get_signal_type_from_rsi default_detector 35 = Some PANIC
   \<and> fst (detect_panic default_detector open_market boundary_rsi_data False) = Inr None"
proof -
  have a: "fst (analyze_ticker default_detector open_market boundary_rsi_data) = Inr None"
    by (simp add: boundary_rsi_data_def detector_eval_defs)
  have th: "rsi_buy (white (thresholds default_detector)) = 35"
    "rsi_sell (white (thresholds default_detector)) = 65"
    by (simp_all add: default_detector_def PanicDetector_init_def DEFAULT_THRESHOLDS_def)
  have r: "dict_get (rsi_14 boundary_rsi_data) = Some 35"
    by (simp add: boundary_rsi_data_def strong_panic_data_def no_data_def)
  from boundary_rsi_no_signal [where det = default_detector and d = boundary_rsi_data
      and r = 35 and w = open_market and rd = False] th r a
  show ?thesis by simp
qed

section \<open>The volume filter\<close>

text \<open>
  Claim C4, amended.  The volume filter passes if and only if the input has a non-empty
  ticker and a current volume, an average volume above 0 is found (the mean of
  \<open>historical_volumes\<close>, else an unexpired cache entry, else the mean of the adapter's
  daily candles) and \<open>current_volume / average\<close> is at least \<open>min_volume_ratio\<close>; the
  input's \<open>volume_ratio\<close> is not read.  \<open>min_volume_ratio\<close> is 1.5 for a filter built
  without configuration; the detector builds its filter with the white \<open>volume_min\<close>,
  1.2 by default.
\<close>

theorem volume_filter_passes:
  "((\<exists>m. fst (VolumeFilter_check vf w d) = Inr (True, m)) \<longleftrightarrow>
      (\<exists>tk cv avg. dict_get (ticker d) = Some tk \<and> tk \<noteq> [] \<and> dict_get (current_volume d) = Some cv
         \<and> fst (get_average_volume vf w tk d) = Inr (Some avg) \<and> 0 < avg
         \<and> min_volume_ratio vf \<le> cv / avg))
   \<and> VolumeFilter_check vf w (d\<lparr> volume_ratio := x \<rparr>) = VolumeFilter_check vf w d
   \<and> min_volume_ratio (VolumeFilter_init None) = 1.5
   \<and> filters (PanicDetector_init th a) ''volume''
        = Some (FVolume (VolumeFilter_init (Some (volume_min (white th)))))
   \<and> min_volume_ratio (VolumeFilter_init (Some (volume_min (white DEFAULT_THRESHOLDS)))) = 1.2"
proof -
  have p1: "(\<exists>m. fst (VolumeFilter_check vf w d) = Inr (True, m)) \<longleftrightarrow>
      (\<exists>tk cv avg. dict_get (ticker d) = Some tk \<and> tk \<noteq> [] \<and> dict_get (current_volume d) = Some cv
         \<and> fst (get_average_volume vf w tk d) = Inr (Some avg) \<and> 0 < avg
         \<and> min_volume_ratio vf \<le> cv / avg)"
  proof (cases "dict_get (ticker d)")
    case None
    then show ?thesis by (simp add: VolumeFilter_check_def)
  next
    case tk: (Some tk)
    show ?thesis
    proof (cases "dict_get (current_volume d)")
      case None
      with tk show ?thesis by (simp add: VolumeFilter_check_def)
    next
      case cv: (Some cv)
      obtain r vf' where g: "get_average_volume vf w tk d = (r, vf')"
        by (cases "get_average_volume vf w tk d")
      show ?thesis
      proof (cases r)
        case (Inl e)
        with tk cv g show ?thesis by (simp add: VolumeFilter_check_def)
      next
        case (Inr a)
        with tk cv g show ?thesis
          by (cases a) (auto simp: VolumeFilter_check_def not_le)
      qed
    qed
  qed
  have p2: "VolumeFilter_check vf w (d\<lparr> volume_ratio := x \<rparr>) = VolumeFilter_check vf w d"
    by (simp add: VolumeFilter_check_def get_average_volume_def
        cong: option.case_cong if_cong prod.case_cong sum.case_cong)
  have p3: "min_volume_ratio (VolumeFilter_init None) = 1.5"
    by (simp add: VolumeFilter_init_def)
  have p4: "filters (PanicDetector_init th a) ''volume''
        = Some (FVolume (VolumeFilter_init (Some (volume_min (white th)))))"
    by (simp add: PanicDetector_init_def)
  have p5: "min_volume_ratio (VolumeFilter_init (Some (volume_min (white DEFAULT_THRESHOLDS)))) = 1.2"
    by (simp add: VolumeFilter_init_def DEFAULT_THRESHOLDS_def)
  show ?thesis by (intro conjI p1 p2 p3 p4 p5)
qed

text \<open>The theorem at the strong panic: 450 against an average of 195 passes.\<close>

theorem volume_filter_passes_witness:
  "(\<exists>m. fst (VolumeFilter_check (VolumeFilter_init (Some 1.2)) open_market strong_panic_data)
       = Inr (True, m))
   \<and> fst (get_average_volume (VolumeFilter_init (Some 1.2)) open_market ''SBER'' strong_panic_data)
       = Inr (Some 195)"
proof -
  have g: "fst (get_average_volume (VolumeFilter_init (Some 1.2)) open_market ''SBER'' strong_panic_data)
       = Inr (Some 195)"
    by (simp add: get_average_volume_def strong_panic_data_def no_data_def mean_def)
  have "\<exists>tk cv avg. dict_get (ticker strong_panic_data) = Some tk \<and> tk \<noteq> []
         \<and> dict_get (current_volume strong_panic_data) = Some cv
         \<and> fst (get_average_volume (VolumeFilter_init (Some 1.2)) open_market tk strong_panic_data)
             = Inr (Some avg)
         \<and> 0 < avg \<and> min_volume_ratio (VolumeFilter_init (Some 1.2)) \<le> cv / avg"
    using g by (simp add: strong_panic_data_def no_data_def VolumeFilter_init_def)
  with volume_filter_passes [of "VolumeFilter_init (Some 1.2)" open_market strong_panic_data] g
  show ?thesis by blast
qed

text \<open>
  Claim C4 as stated fails: an input with a volume ratio of 3, above the threshold 1.5,
  and no \<open>current_volume\<close> does not pass the filter.
\<close>

theorem volume_ratio_not_read:
  "dict_get (volume_ratio basic_only_data) = Some 3
   \<and> min_volume_ratio (VolumeFilter_init None) = 1.5
   \<and> fst (VolumeFilter_check (VolumeFilter_init None) open_market basic_only_data)
       = Inr (False, NoCurrentVolume)"
  by (simp add: basic_only_data_def no_data_def VolumeFilter_init_def VolumeFilter_check_def)

section \<open>The signal store\<close>

text \<open>
  A save succeeds exactly when no connection left by a failed save holds the write lock
  and the four \<open>NOT NULL\<close> columns have values.
\<close>

lemma save_signal_True_iff:
  "fst (save_signal db rt sd) \<longleftrightarrow>
     \<not> (write_locked db \<and> \<not> connections_collected rt)
     \<and> (\<exists>tk ts sty lv. sd_ticker sd = Some tk
           \<and> or_list (sd_detected_at sd) (sd_timestamp sd) = Some ts
           \<and> sd_signal_type sd = Some sty \<and> sd_level sd = Some lv)"
  by (cases "sd_ticker sd"; cases "or_list (sd_detected_at sd) (sd_timestamp sd)";
      cases "sd_signal_type sd"; cases "sd_level sd") (simp_all add: save_signal_def)

text \<open>
  After a failed \<open>INSERT\<close> the table is locked: the save of a complete signal fails
  and inserts nothing until the connection has been collected.
\<close>

lemma save_after_failed_save:
  "save_signal empty_db test_clock no_level_dict = (False, empty_db\<lparr> write_locked := True \<rparr>)
   \<and> save_signal (empty_db\<lparr> write_locked := True \<rparr>) test_clock urgent_signal_dict
       = (False, empty_db\<lparr> write_locked := True \<rparr>)
   \<and> map col_id (signals (snd (save_signal (empty_db\<lparr> write_locked := True \<rparr>)
        test_clock_collected urgent_signal_dict))) = [1]"
  by (simp add: save_signal_def no_level_dict_def urgent_signal_dict_def empty_db_def
      test_clock_def test_clock_collected_def)




text \<open>
  Claim C8, amended.  The market tension of \<open>get_stats\<close> depends on the number of
  signals in the window only: calm for 0 signals, moderate for 1 to 9, panic for 10 or
  more.
\<close>

theorem get_stats_tension:
  "total_signals (get_stats db ck days)
      = length (filter (\<lambda>r. strftime_days_ago ck days \<le> col_timestamp r) (signals db))
   \<and> (total_signals (get_stats db ck days) = 0 \<longrightarrow> market_tension (get_stats db ck days) = CALM)
   \<and> (0 < total_signals (get_stats db ck days) \<and> total_signals (get_stats db ck days) < 10
        \<longrightarrow> market_tension (get_stats db ck days) = MODERATE_TENSION)
   \<and> (10 \<le> total_signals (get_stats db ck days)
        \<longrightarrow> market_tension (get_stats db ck days) = PANIC_TENSION)"
  by (simp add: get_stats_def rows_since_def Let_def)

lemma one_urgent_stats:
  "get_stats (snd (save_signal empty_db test_clock urgent_signal_dict)) test_clock 7
    = \<lparr> total_signals = 1, strong_signals = Some 0, moderate_signals = Some 0,
        urgent_signals = Some 1, market_tension = MODERATE_TENSION \<rparr>"
  by (simp add: get_stats_def rows_since_def sum_level_def save_signal_def urgent_signal_dict_def
      empty_db_def test_clock_def Let_def)

text \<open>The theorem at a table with one urgent signal in the window.\<close>

theorem get_stats_tension_witness:
  "market_tension (get_stats (snd (save_signal empty_db test_clock urgent_signal_dict)) test_clock 7)
     = MODERATE_TENSION"
  using get_stats_tension [of "snd (save_signal empty_db test_clock urgent_signal_dict)" test_clock 7]
  by (simp add: one_urgent_stats)

text \<open>
  Claim C8 as stated fails: with one signal in the window, neither strong nor moderate
  (both shares are 0, for which the claim gives calm), the tension is moderate.
\<close>

theorem one_urgent_signal_moderate:
  "total_signals (get_stats (snd (save_signal empty_db test_clock urgent_signal_dict)) test_clock 7) = 1
   \<and> strong_signals (get_stats (snd (save_signal empty_db test_clock urgent_signal_dict)) test_clock 7)
       = Some 0
   \<and> moderate_signals (get_stats (snd (save_signal empty_db test_clock urgent_signal_dict)) test_clock 7)
       = Some 0
   \<and> market_tension (get_stats (snd (save_signal empty_db test_clock urgent_signal_dict)) test_clock 7)
       = MODERATE_TENSION"
  by (simp add: one_urgent_stats)

section \<open>The RSI of the indicator kernel\<close>

lemma length_diff: "length (diff xs) = length xs - 1"
  by (induction xs rule: diff.induct) simp_all

lemma length_gains_of: "length (gains_of prices) = length prices - 1"
  by (simp add: gains_of_def length_diff)

lemma length_losses_of: "length (losses_of prices) = length prices - 1"
  by (simp add: losses_of_def length_diff)

lemma length_smooth: "length (smooth p prev xs) = length xs"
  by (induction xs arbitrary: prev) (simp_all add: Let_def)

lemma length_averages: "length (averages p xs) = Suc (length xs - p)"
  by (simp add: averages_def Let_def length_smooth)

lemma rsi_of_no_loss: "rsi_of g 0 = 10000 / 101"
  by (simp add: rsi_of_def)

lemma rsi_of_no_gain: "l \<noteq> 0 \<Longrightarrow> rsi_of 0 l = 0"
  by (simp add: rsi_of_def)

lemma safe_calculate_rsi_nth:
  assumes "p + 1 \<le> length prices" "j < length prices - p"
  shows "safe_calculate_rsi prices p ! (p + j)
     = Some (rsi_of (averages p (gains_of prices) ! j) (averages p (losses_of prices) ! j))"
proof -
  let ?rs = "map2 rsi_of (averages p (gains_of prices)) (averages p (losses_of prices))"
  from assms have len: "j < length ?rs"
    by (simp add: length_averages length_gains_of length_losses_of)
  from assms have "safe_calculate_rsi prices p = replicate p None @ map Some ?rs"
    by (simp add: safe_calculate_rsi_def length_gains_of)
  then have "safe_calculate_rsi prices p ! (p + j) = map Some ?rs ! j"
    by (simp add: nth_append)
  also from len have "\<dots> = Some (?rs ! j)" by simp
  also from len have "?rs ! j = rsi_of (averages p (gains_of prices) ! j) (averages p (losses_of prices) ! j)"
    by simp
  finally show ?thesis .
qed

text \<open>
  Claim C6, amended.  For every price list with at least \<open>period + 1\<close> entries (and a
  period of at least 1) the result has the length of the input, and at every position
  from \<open>period\<close> on: where the smoothed average loss is 0 the RSI value is \<open>100 - 100 / 101\<close>
  (\<open>rs\<close> is set to 100 there), and where the average gain is 0 and the average loss is
  not, the RSI value is 0.
\<close>

theorem rsi_special_cases:
  assumes "0 < p" "p + 1 \<le> length prices" "j < length prices - p"
  shows "length (safe_calculate_rsi prices p) = length prices
     \<and> (averages p (losses_of prices) ! j = 0
          \<longrightarrow> safe_calculate_rsi prices p ! (p + j) = Some (10000 / 101))
     \<and> (averages p (gains_of prices) ! j = 0 \<and> averages p (losses_of prices) ! j \<noteq> 0
          \<longrightarrow> safe_calculate_rsi prices p ! (p + j) = Some 0)"
proof -
  from assms have "length (safe_calculate_rsi prices p) = length prices"
    by (auto simp: safe_calculate_rsi_def length_averages length_gains_of length_losses_of)
  with safe_calculate_rsi_nth [OF assms(2,3)] show ?thesis
    by (simp add: rsi_of_no_loss rsi_of_no_gain)
qed

text \<open>
  Claim C6 as stated fails: for the rising prices 1, 2, 3 and period 2 the average loss
  is 0 and the RSI value is \<open>10000 / 101\<close>, not 100; for the flat prices 1, 1, 1 the
  average gain is 0 and the RSI value is \<open>10000 / 101\<close>, not 0.
\<close>

theorem rising_prices_rsi:
  "averages 2 (losses_of [1, 2, 3]) = [0]
   \<and> calculate_rsi [1, 2, 3] 2 = [None, None, Some (10000 / 101)]
   \<and> averages 2 (gains_of [1, 1, 1]) = [0]
   \<and> calculate_rsi [1, 1, 1] 2 = [None, None, Some (10000 / 101)]"
  by (simp add: calculate_rsi_def safe_calculate_rsi_def gains_of_def losses_of_def averages_def
      rsi_of_def mean_def Let_def numeral_2_eq_2)

text \<open>The theorem at the falling prices 3, 2, 1 and at the rising prices 1, 2, 3.\<close>

theorem rsi_special_cases_witness:
  "calculate_rsi [3, 2, 1] 2 ! 2 = Some 0 \<and> calculate_rsi [1, 2, 3] 2 ! 2 = Some (10000 / 101)"
proof -
  have a: "averages 2 (gains_of [3, 2, 1]) = [0]" "averages 2 (losses_of [3, 2, 1]) = [1]"
    "averages 2 (losses_of [1, 2, 3]) = [0]"
    by (simp_all add: gains_of_def losses_of_def averages_def mean_def Let_def numeral_2_eq_2)
  from rsi_special_cases [of 2 "[3, 2, 1]" 0] rsi_special_cases [of 2 "[1, 2, 3]" 0] a
  show ?thesis by (simp add: calculate_rsi_def)
qed

end
